theory Spec2Isabelle
  imports Main
begin

section \<open>Python values used by the booking agent\<close>

text \<open>
  Strings are lists of 8-bit characters. The character classes of the source
  (\<^verbatim>\<open>str.lower\<close>, \<^verbatim>\<open>str.strip\<close>, the regular-expression classes
  \<^verbatim>\<open>\d\<close>, \<^verbatim>\<open>\s\<close>, \<^verbatim>\<open>\b\<close>) are modelled on the ASCII range;
  a character outside it is taken as it is.
\<close>

datatype py_error = ValueError | KeyError | AttributeError | TypeError | IndexError

definition is_space :: "char \<Rightarrow> bool" where
  "is_space c = (c \<in> set [CHR '' '', CHR 0x09, CHR 0x0A, CHR 0x0B, CHR 0x0C, CHR 0x0D,
                            CHR 0x1C, CHR 0x1D, CHR 0x1E, CHR 0x1F])"

definition is_digit :: "char \<Rightarrow> bool" where
  "is_digit c = (c \<in> set ''0123456789'')"

definition digit_val :: "char \<Rightarrow> int" where
  "digit_val c = (case map_of (zip ''0123456789'' [0, 1, 2, 3, 4, 5, 6, 7, 8, 9]) c of
                    Some d \<Rightarrow> d | None \<Rightarrow> 0)"

definition digit_char :: "int \<Rightarrow> char" where
  "digit_char d = ''0123456789'' ! nat d"

definition lower_char :: "char \<Rightarrow> char" where
  "lower_char c = (case map_of (zip ''ABCDEFGHIJKLMNOPQRSTUVWXYZ''
                                    ''abcdefghijklmnopqrstuvwxyz'') c of
                     Some d \<Rightarrow> d | None \<Rightarrow> c)"

text \<open>\<^verbatim>\<open>s.lower()\<close> and \<^verbatim>\<open>s.strip()\<close>.\<close>

definition lower :: "string \<Rightarrow> string" where
  "lower s = map lower_char s"

definition strip :: "string \<Rightarrow> string" where
  "strip s = rev (dropWhile is_space (rev (dropWhile is_space s)))"

text \<open>\<^verbatim>\<open>s.startswith(p)\<close> and \<^verbatim>\<open>needle in hay\<close>.\<close>

fun startswith :: "string \<Rightarrow> string \<Rightarrow> bool" where
  "startswith s [] = True"
| "startswith [] (p # ps) = False"
| "startswith (c # cs) (p # ps) = (c = p \<and> startswith cs ps)"

fun sub_in :: "string \<Rightarrow> string \<Rightarrow> bool" where
  "sub_in needle [] = (needle = [])"
| "sub_in needle (c # cs) = (startswith (c # cs) needle \<or> sub_in needle cs)"

text \<open>
  \<^verbatim>\<open>s.replace(old, new)\<close> for a non-empty \<open>old\<close>: the occurrences are replaced
  from the left and do not overlap.
\<close>

function replace :: "string \<Rightarrow> string \<Rightarrow> string \<Rightarrow> string" where
  "replace old new [] = []"
| "replace old new (c # cs) =
     (if old \<noteq> [] \<and> startswith (c # cs) old
      then new @ replace old new (drop (length old) (c # cs))
      else c # replace old new cs)"
  by pat_completeness auto
termination
  by (relation "measure (\<lambda>(old, new, s). length s)") (auto simp: neq_Nil_conv)

text \<open>
  \<^verbatim>\<open>s.split(sep)\<close> for a non-empty \<open>sep\<close>; \<open>cur\<close> holds, reversed, the piece
  being read.
\<close>

function split_from :: "string \<Rightarrow> string \<Rightarrow> string \<Rightarrow> string list" where
  "split_from sep cur [] = [rev cur]"
| "split_from sep cur (c # cs) =
     (if sep \<noteq> [] \<and> startswith (c # cs) sep
      then rev cur # split_from sep [] (drop (length sep) (c # cs))
      else split_from sep (c # cur) cs)"
  by pat_completeness auto
termination
  by (relation "measure (\<lambda>(sep, cur, s). length s)") (auto simp: neq_Nil_conv)

definition split :: "string \<Rightarrow> string \<Rightarrow> string list" where
  "split sep s = split_from sep [] s"

text \<open>
  The interpreter converts between integers and decimal strings up to
  \<^verbatim>\<open>sys.int_info.default_max_str_digits\<close> digits, and raises
  \<^verbatim>\<open>ValueError\<close> above.
\<close>

definition max_str_digits :: int where
  "max_str_digits = 4300"

text \<open>
  \<^verbatim>\<open>int(s)\<close> on a string: surrounding whitespace, an optional sign, decimal
  digits, single underscores between digits, and no more digits than the limit.
  \<open>None\<close> is the \<^verbatim>\<open>ValueError\<close>.
\<close>

fun parse_digits :: "int \<Rightarrow> string \<Rightarrow> int option" where
  "parse_digits acc [] = Some acc"
| "parse_digits acc [c] = (if is_digit c then Some (acc * 10 + digit_val c) else None)"
| "parse_digits acc (c # d # cs) =
     (if \<not> is_digit c then None
      else if d = CHR ''_''
      then (case cs of
              [] \<Rightarrow> None
            | e # _ \<Rightarrow> if is_digit e then parse_digits (acc * 10 + digit_val c) cs else None)
      else parse_digits (acc * 10 + digit_val c) (d # cs))"

definition py_int :: "string \<Rightarrow> int option" where
  "py_int s =
     (case strip s of
        [] \<Rightarrow> None
      | c # cs \<Rightarrow>
          if max_str_digits < int (length (filter is_digit (c # cs))) then None
          else if c = CHR ''-'' then (if cs = [] then None
                                else map_option uminus (parse_digits 0 cs))
          else if c = CHR ''+'' then (if cs = [] then None else parse_digits 0 cs)
          else parse_digits 0 (c # cs))"

text \<open>The decimal digits of a number that is not negative.\<close>

function show_nat :: "int \<Rightarrow> string" where
  "show_nat n = (if n < 10 then [digit_char n] else show_nat (n div 10) @ [digit_char (n mod 10)])"
  by pat_completeness auto
termination
  by (relation "measure nat") auto

declare show_nat.simps [simp del]

text \<open>
  The text of \<^verbatim>\<open>str(n)\<close> and of the format \<^verbatim>\<open>{n:02d}\<close>, where the sign
  counts in the width of two.
\<close>

definition show_int :: "int \<Rightarrow> string" where
  "show_int n = (if n < 0 then ''-'' @ show_nat (- n) else show_nat n)"

definition fmt02d :: "int \<Rightarrow> string" where
  "fmt02d n = (if n < 0 then ''-'' @ show_nat (- n)
               else if n < 10 then ''0'' @ show_nat n
               else show_nat n)"

text \<open>Sequencing of calls that may raise.\<close>

abbreviation bind :: "py_error + 'a \<Rightarrow> ('a \<Rightarrow> py_error + 'b) \<Rightarrow> py_error + 'b" where
  "bind r f \<equiv> case_sum Inl f r"

text \<open>
  The two conversions on an integer of any size: \<^verbatim>\<open>ValueError\<close> when it has
  more digits than the limit, the sign not counted.
\<close>

definition within_str_digits :: "int \<Rightarrow> bool" where
  "within_str_digits n \<longleftrightarrow> int (length (show_nat \<bar>n\<bar>)) \<le> max_str_digits"

definition str_int :: "int \<Rightarrow> py_error + string" where
  "str_int n = (if within_str_digits n then Inr (show_int n) else Inl ValueError)"

definition format_02d :: "int \<Rightarrow> py_error + string" where
  "format_02d n = (if within_str_digits n then Inr (fmt02d n) else Inl ValueError)"

section \<open>Time-of-day normalisation (\<^verbatim>\<open>agent.py\<close>)\<close>

text \<open>\<^verbatim>\<open>BookingAgent._normalize_time\<close>.\<close>

definition normalize_time :: "string \<Rightarrow> py_error + string" where
  "normalize_time time_str0 =
     (let time_str1 = strip (replace ''.'' '''' (lower time_str0));
          is_pm = sub_in ''pm'' time_str1;
          time_str = strip (replace ''pm'' '''' (replace ''am'' '''' time_str1))
      in if \<not> sub_in '':'' time_str
         then (case py_int time_str of
                 None \<Rightarrow> Inl ValueError
               | Some hour \<Rightarrow>
                   bind (format_02d (if is_pm \<and> hour < 12 then hour + 12 else hour)) (\<lambda>hh.
                   Inr (hh @ '':00'')))
         else (case split '':'' time_str of
                 [hour_s, minute] \<Rightarrow>
                   (case py_int hour_s of
                      None \<Rightarrow> Inl ValueError
                    | Some hour \<Rightarrow>
                        bind (format_02d (if is_pm \<and> hour < 12 then hour + 12 else hour))
                          (\<lambda>hh.
                        Inr (hh @ '':'' @ minute)))
               | _ \<Rightarrow> Inl ValueError))"

text \<open>\<^verbatim>\<open>BookingAgent._add_minutes\<close>.\<close>

definition add_minutes :: "string \<Rightarrow> int \<Rightarrow> py_error + string" where
  "add_minutes time_str minutes =
     (case split '':'' time_str of
        [h, m] \<Rightarrow>
          (case (py_int h, py_int m) of
             (Some hour, Some minute) \<Rightarrow>
               (let total_minutes = hour * 60 + minute + minutes
                in bind (format_02d (total_minutes div 60)) (\<lambda>hh.
                   bind (format_02d (total_minutes mod 60)) (\<lambda>mm.
                   Inr (hh @ '':'' @ mm))))
           | _ \<Rightarrow> Inl ValueError)
      | _ \<Rightarrow> Inl ValueError)"

section \<open>Time-range normalisation (\<^verbatim>\<open>agent.py\<close>)\<close>

definition is_word :: "char \<Rightarrow> bool" where
  "is_word c = (c \<in> set ''abcdefghijklmnopqrstuvwxyzABCDEFGHIJKLMNOPQRSTUVWXYZ0123456789_'')"

definition is_word_opt :: "char option \<Rightarrow> bool" where
  "is_word_opt c = (case c of None \<Rightarrow> False | Some x \<Rightarrow> is_word x)"

text \<open>
  The separators of \<^verbatim>\<open>re.sub(r"\b(to|until|through|thru|...|...)\b", "-", s)\<close>, in
  the order of the alternation. The last two are written in the source file as the
  characters U+00E2 U+20AC U+201C and U+00E2 U+20AC U+201D, given here as their UTF-8
  bytes; they begin with a letter and end with a punctuation character, so the closing
  \<^verbatim>\<open>\b\<close> asks for a word character after them. The flag says whether the last
  character of the separator is a word character.
\<close>

definition separators :: "(string \<times> bool) list" where
  "separators =
     [(''to'', True), (''until'', True), (''through'', True), (''thru'', True),
      ([CHR 0xC3, CHR 0xA2, CHR 0xE2, CHR 0x82, CHR 0xAC, CHR 0xE2, CHR 0x80, CHR 0x9C], False),
      ([CHR 0xC3, CHR 0xA2, CHR 0xE2, CHR 0x82, CHR 0xAC, CHR 0xE2, CHR 0x80, CHR 0x9D], False)]"

text \<open>
  The length of the first separator that matches at the head of \<open>s\<close>, between two
  word boundaries; \<open>prev\<close> is the character before \<open>s\<close>.
\<close>

definition match_separator :: "char option \<Rightarrow> string \<Rightarrow> nat option" where
  "match_separator prev s =
     (if is_word_opt prev then None
      else map_option (\<lambda>(w, ends_word). length w)
             (find (\<lambda>(w, ends_word).
                      startswith s w \<and>
                      is_word_opt (case drop (length w) s of [] \<Rightarrow> None | c # _ \<Rightarrow> Some c)
                        \<noteq> ends_word)
                   separators))"

text \<open>The substitution; \<open>skip\<close> counts the characters of a match still to be dropped.\<close>

fun sub_separators :: "nat \<Rightarrow> char option \<Rightarrow> string \<Rightarrow> string" where
  "sub_separators skip prev [] = []"
| "sub_separators (Suc k) prev (c # cs) = sub_separators k (Some c) cs"
| "sub_separators 0 prev (c # cs) =
     (case match_separator prev (c # cs) of
        Some n \<Rightarrow> CHR ''-'' # sub_separators (n - 1) (Some c) cs
      | None \<Rightarrow> c # sub_separators 0 (Some c) cs)"

definition named_times :: "(string \<times> string \<times> string) list" where
  "named_times =
     [(''morning'', ''09:00'', ''12:00''), (''afternoon'', ''13:00'', ''17:00''),
      (''evening'', ''17:00'', ''20:00''), (''night'', ''20:00'', ''23:00''),
      (''noon'', ''12:00'', ''13:00''), (''midnight'', ''00:00'', ''01:00'')]"

text \<open>
  \<^verbatim>\<open>re.search(r"for (\d+)\s*(hour|hr|minute|min)", s)\<close>: the start of the
  leftmost match and its two groups. The greedy \<^verbatim>\<open>\d+\<close> and \<^verbatim>\<open>\s*\<close> never
  have to give characters back, since a unit begins with a letter.
\<close>

definition match_duration :: "string \<Rightarrow> (string \<times> string) option" where
  "match_duration s =
     (if \<not> startswith s ''for '' then None
      else let r = drop 4 s;
               num = takeWhile is_digit r;
               r' = dropWhile is_space (dropWhile is_digit r)
           in if num = [] then None
              else map_option (\<lambda>unit. (num, unit))
                     (find (startswith r') [''hour'', ''hr'', ''minute'', ''min'']))"

fun search_duration :: "nat \<Rightarrow> string \<Rightarrow> (nat \<times> string \<times> string) option" where
  "search_duration i [] = None"
| "search_duration i (c # cs) =
     (case match_duration (c # cs) of
        Some (num, unit) \<Rightarrow> Some (i, num, unit)
      | None \<Rightarrow> search_duration (Suc i) cs)"

definition int_of_str :: "string \<Rightarrow> py_error + int" where
  "int_of_str s = (case py_int s of None \<Rightarrow> Inl ValueError | Some n \<Rightarrow> Inr n)"

section \<open>Collaborators and library functions\<close>

text \<open>
  A value parsed from the language model's JSON answer. Non-integer numbers are left
  out of the model.
\<close>

datatype json = JNull | JBool bool | JInt int | JStr string
  | JList "json list" | JObj "(string \<times> json) list"

text \<open>Python's truth value of such a value (\<^verbatim>\<open>if not x\<close>).\<close>

fun truthy :: "json \<Rightarrow> bool" where
  "truthy JNull = False"
| "truthy (JBool b) = b"
| "truthy (JInt n) = (n \<noteq> 0)"
| "truthy (JStr s) = (s \<noteq> [])"
| "truthy (JList xs) = (xs \<noteq> [])"
| "truthy (JObj kvs) = (kvs \<noteq> [])"

text \<open>
  A date is its proleptic Gregorian ordinal (\<^verbatim>\<open>date.toordinal()\<close>), so that
  \<^verbatim>\<open>today + timedelta(days=n)\<close> is addition. A timezone-aware datetime is the
  number of seconds of Asia/Kolkata local time since midnight of ordinal 0; the zone
  has a fixed offset, so comparing these numbers compares the instants, and the
  ISO-8601 string of a slot stands for its number.
\<close>

record slot =
  slot_start :: int
  slot_end :: int
  slot_display :: string

record booking =
  booking_id :: string
  htmlLink :: string
  booking_start :: string
  booking_end :: string

text \<open>
  What the code takes from outside the repository: the clock, the \<^verbatim>\<open>datetime\<close>,
  \<^verbatim>\<open>dateparser\<close> and \<^verbatim>\<open>json\<close> libraries, the language model, the
  credential files and the Google Calendar API. \<open>None\<close> (or \<open>Inl\<close>) is a raised
  exception, for \<open>dateparser_parse\<close> also the result \<^verbatim>\<open>None\<close>.
\<close>

record env =
  today :: int
  strftime_date :: "int \<Rightarrow> string"
  strptime_date :: "string \<Rightarrow> int option"
  strftime_long_date :: "int \<Rightarrow> string"
  dateparser_parse :: "string \<Rightarrow> int option"
  isoformat :: "int \<Rightarrow> string"
  fromisoformat :: "string \<Rightarrow> int option"
  strftime_datetime :: "int \<Rightarrow> string"
  py_str :: "json \<Rightarrow> string"
  chat_invoke :: "(string \<Rightarrow> py_error + string) option"
  json_loads :: "string \<Rightarrow> json option"
  credentials :: "string \<Rightarrow> bool"
  freebusy_query :: "string \<Rightarrow> int \<Rightarrow> int \<Rightarrow> (int \<times> int) list option"
  events_insert :: "string \<Rightarrow> json \<Rightarrow> int \<Rightarrow> int \<Rightarrow> booking option"

text \<open>\<^verbatim>\<open>date.weekday()\<close>: Monday is 0.\<close>

definition weekday :: "int \<Rightarrow> int" where
  "weekday d = (d + 6) mod 7"

section \<open>Date normalisation (\<^verbatim>\<open>agent.py\<close>)\<close>

definition relative_keywords :: "(string \<times> int) list" where
  "relative_keywords = [(''today'', 0), (''tomorrow'', 1), (''day after tomorrow'', 2),
                        (''next week'', 7), (''next month'', 30)]"

definition weekdays :: "(string \<times> int) list" where
  "weekdays = [(''monday'', 0), (''tuesday'', 1), (''wednesday'', 2), (''thursday'', 3),
               (''friday'', 4), (''saturday'', 5), (''sunday'', 6)]"

definition prefixes :: "string list" where
  "prefixes = [''next'', ''this'', ''coming'']"

text \<open>
  \<^verbatim>\<open>BookingAgent._parse_date\<close>. The two nested loops return at the first pair
  (prefix, day), prefixes outermost, whose phrase occurs in the text.
\<close>

definition parse_date :: "env \<Rightarrow> json \<Rightarrow> py_error + string" where
  "parse_date e date_str0 =
     (if \<not> truthy date_str0 then Inr (strftime_date e (today e))
      else case date_str0 of
        JStr s \<Rightarrow>
          (let date_str = strip (lower s) in
           case map_of relative_keywords date_str of
             Some n \<Rightarrow> Inr (strftime_date e (today e + n))
           | None \<Rightarrow>
               (case find (\<lambda>(prefix, day, idx). sub_in (prefix @ '' '' @ day) date_str)
                          (List.product prefixes weekdays) of
                  Some (prefix, day, idx) \<Rightarrow>
                    (let days_ahead0 =
                           (idx - weekday (today e) + (if prefix \<noteq> ''this'' then 7 else 0)) mod 7;
                         days_ahead =
                           (if days_ahead0 = 0 \<and> prefix \<noteq> ''this'' then 7 else days_ahead0)
                     in Inr (strftime_date e (today e + days_ahead)))
                | None \<Rightarrow>
                    (case dateparser_parse e date_str of
                       Some parsed \<Rightarrow> Inr (strftime_date e parsed)
                     | None \<Rightarrow> Inl ValueError)))
      | _ \<Rightarrow> Inl AttributeError)"

text \<open>
  \<^verbatim>\<open>BookingAgent._parse_time\<close>. A value that is not a string has no
  \<^verbatim>\<open>lower\<close> method.
\<close>

definition parse_time :: "json \<Rightarrow> py_error + string \<times> string" where
  "parse_time time_str0 =
     (if \<not> truthy time_str0 then Inr (''09:00'', ''17:00'')
      else case time_str0 of
        JStr s \<Rightarrow>
          (let time_str = sub_separators 0 None (strip (lower s)) in
           case map_of named_times time_str of
             Some window \<Rightarrow> Inr window
           | None \<Rightarrow>
               if sub_in ''from'' time_str \<and> sub_in ''to'' time_str
               then (case split ''to'' time_str of
                       p0 # p1 # _ \<Rightarrow>
                         bind (normalize_time (strip (replace ''from'' '''' p0))) (\<lambda>start.
                         bind (normalize_time (strip p1)) (\<lambda>end_time.
                         Inr (start, end_time)))
                     | _ \<Rightarrow> Inl IndexError)
               else (case search_duration 0 time_str of
                       Some (match_start, num_s, unit) \<Rightarrow>
                         (let time_part = strip (take match_start time_str) in
                          bind (int_of_str num_s) (\<lambda>num.
                          let minutes = (if startswith unit ''h'' then num * 60 else num) in
                          bind (normalize_time time_part) (\<lambda>start.
                          bind (normalize_time time_part) (\<lambda>start'.
                          bind (add_minutes start' minutes) (\<lambda>end_time.
                          Inr (start, end_time))))))
                     | None \<Rightarrow>
                         if sub_in ''-'' time_str
                         then bind (normalize_time (strip (takeWhile (\<lambda>c. c \<noteq> CHR ''-'') time_str)))
                                (\<lambda>start.
                              bind (normalize_time
                                      (strip (drop 1 (dropWhile (\<lambda>c. c \<noteq> CHR ''-'') time_str))))
                                (\<lambda>end_time.
                              Inr (start, end_time)))
                         else bind (normalize_time time_str) (\<lambda>normalized.
                              bind (add_minutes normalized 30) (\<lambda>end_time.
                              Inr (normalized, end_time)))))
      | _ \<Rightarrow> Inl AttributeError)"

text \<open>
  \<^verbatim>\<open>BookingAgent._is_time_in_range\<close>. The text between \<^verbatim>\<open>T\<close> and the first
  colon of the slot's ISO string is the local hour of its start.
\<close>

definition local_hour :: "int \<Rightarrow> int" where
  "local_hour t = (t mod 86400) div 3600"

definition hour_field :: "string \<Rightarrow> py_error + int" where
  "hour_field s = (case split '':'' s of [] \<Rightarrow> Inl IndexError | h # _ \<Rightarrow> int_of_str h)"

definition is_time_in_range :: "int \<Rightarrow> string \<Rightarrow> string \<Rightarrow> py_error + bool" where
  "is_time_in_range slot_time start end_time =
     (let slot_hour = local_hour slot_time in
      bind (hour_field start) (\<lambda>start_hour.
      bind (hour_field end_time) (\<lambda>end_hour.
      Inr (start_hour \<le> slot_hour \<and> slot_hour < end_hour))))"

section \<open>The calendar service (\<^verbatim>\<open>calendar_service.py\<close>)\<close>

text \<open>
  \<^verbatim>\<open>GoogleCalendarService._get_credentials\<close>: an empty user id raises inside
  the function's own \<^verbatim>\<open>try\<close> and gives \<^verbatim>\<open>None\<close>; the token files and the
  refresh are the credential collaborator.
\<close>

definition get_credentials :: "env \<Rightarrow> string \<Rightarrow> bool" where
  "get_credentials e user_id = (if user_id = [] then False else credentials e user_id)"

text \<open>
  The \<^verbatim>\<open>while\<close> loop of \<^verbatim>\<open>get_available_slots\<close> that lists the candidate slots,
  one every 15 minutes.
\<close>

function possible_slots_from :: "int \<Rightarrow> int \<Rightarrow> int \<Rightarrow> (int \<times> int) list" where
  "possible_slots_from current_time slot_duration end_datetime =
     (if current_time + slot_duration \<le> end_datetime
      then (current_time, current_time + slot_duration)
             # possible_slots_from (current_time + 15 * 60) slot_duration end_datetime
      else [])"
  by pat_completeness auto
termination
  by (relation "measure (\<lambda>(c, d, e). nat (e - d - c + 1))") auto

declare possible_slots_from.simps [simp del]

text \<open>The inner \<^verbatim>\<open>for busy in busy_slots\<close> loop, which breaks at the first overlap.\<close>

fun is_available :: "int \<Rightarrow> int \<Rightarrow> (int \<times> int) list \<Rightarrow> bool" where
  "is_available start_s end_s [] = True"
| "is_available start_s end_s ((busy_start, busy_end) # busy_slots) =
     (if \<not> (end_s \<le> busy_start \<or> start_s \<ge> busy_end) then False
      else is_available start_s end_s busy_slots)"

text \<open>\<^verbatim>\<open>strftime("%I:%M %p")\<close> of a local time.\<close>

definition display_time :: "int \<Rightarrow> string" where
  "display_time t =
     (let h = (t mod 86400) div 3600; m = (t mod 3600) div 60
      in fmt02d ((h + 11) mod 12 + 1) @ '':'' @ fmt02d m @ (if h < 12 then '' AM'' else '' PM''))"

text \<open>
  \<^verbatim>\<open>GoogleCalendarService.get_available_slots\<close>. Every exception inside the
  function is caught there and gives the empty list, so the \<^verbatim>\<open>retry\<close> decorator
  never sees a failure.
\<close>

definition get_available_slots :: "env \<Rightarrow> string \<Rightarrow> string \<Rightarrow> int \<Rightarrow> slot list" where
  "get_available_slots e user_id date_s duration_minutes =
     (if \<not> get_credentials e user_id then []
      else case strptime_date e date_s of
        None \<Rightarrow> []
      | Some d \<Rightarrow>
          (let start_datetime = d * 86400 + 9 * 3600;
               end_datetime = d * 86400 + 17 * 3600
           in case freebusy_query e user_id start_datetime end_datetime of
                None \<Rightarrow> []
              | Some busy_slots \<Rightarrow>
                  (let slot_duration = duration_minutes * 60;
                       possible_slots = possible_slots_from start_datetime slot_duration end_datetime
                   in map (\<lambda>(s, t). \<lparr>slot_start = s, slot_end = t, slot_display = display_time s\<rparr>)
                        (filter (\<lambda>(s, t). is_available s t busy_slots) possible_slots))))"

text \<open>
  \<^verbatim>\<open>GoogleCalendarService.book_appointment\<close>: the empty dictionary on a missing
  credential and on every exception, else the four fields of the created event.
\<close>

datatype booking_result = Empty_result | Created booking

definition book_appointment ::
  "env \<Rightarrow> string \<Rightarrow> int \<Rightarrow> int \<Rightarrow> json \<Rightarrow> py_error + booking_result" where
  "book_appointment e user_id start_time end_time summary =
     (if \<not> get_credentials e user_id then Inr Empty_result
      else case events_insert e user_id summary start_time end_time of
        None \<Rightarrow> Inr Empty_result
      | Some event_result \<Rightarrow> Inr (Created event_result))"

section \<open>The conversation state (\<^verbatim>\<open>agent.py\<close>)\<close>

datatype message = HumanMessage string | AIMessage string

fun content :: "message \<Rightarrow> string" where
  "content (HumanMessage c) = c"
| "content (AIMessage c) = c"

fun is_ai :: "message \<Rightarrow> bool" where
  "is_ai (HumanMessage c) = False"
| "is_ai (AIMessage c) = True"

text \<open>
  The extracted details: the four keys the code reads. \<open>None\<close> in the state is the
  empty dictionary of a new session.
\<close>

record details =
  date :: json
  time :: json
  duration :: int
  purpose :: json

text \<open>
  One user's dictionary in \<^verbatim>\<open>self.conversations\<close>. The keys
  \<^verbatim>\<open>suggested_slot\<close> and \<^verbatim>\<open>booking\<close> are absent (\<open>None\<close>) until set. The slot
  index starts at 0 and is only ever set to 0 or to its successor.
\<close>

record conversation_state =
  messages :: "message list"
  extracted_details :: "details option"
  state :: string
  available_slots :: "slot list"
  current_slot_index :: nat
  suggested_slot :: "slot option"
  booking :: "booking_result option"

definition append_message :: "string \<Rightarrow> conversation_state \<Rightarrow> conversation_state" where
  "append_message text cs = cs\<lparr>messages := messages cs @ [AIMessage text]\<rparr>"

text \<open>\<^verbatim>\<open>BookingAgent._format_datetime\<close>.\<close>

definition format_datetime :: "env \<Rightarrow> string \<Rightarrow> string" where
  "format_datetime e iso_str =
     (case fromisoformat e (replace ''Z'' '''' iso_str) of
        None \<Rightarrow> iso_str
      | Some dt \<Rightarrow> strftime_datetime e dt)"

section \<open>Extraction of the appointment details (\<^verbatim>\<open>agent.py\<close>)\<close>

text \<open>
  \<^verbatim>\<open>re.search(r"(\d{1,2})(?::(\d{2}))?\s*(am|pm)?", s)\<close>: the three groups of
  the leftmost match. Everything after the first digit is optional, so the greedy
  choice at each step is the match.
\<close>

definition match_time :: "string \<Rightarrow> (string \<times> string option \<times> string option) option" where
  "match_time s =
     (case s of
        [] \<Rightarrow> None
      | c # cs \<Rightarrow>
          if \<not> is_digit c then None
          else let g1 = (case cs of [] \<Rightarrow> [c] | d # _ \<Rightarrow> if is_digit d then [c, d] else [c]);
                   r = drop (length g1) s;
                   g2 = (case r of
                           k # m1 # m2 # _ \<Rightarrow>
                             if k = CHR '':'' \<and> is_digit m1 \<and> is_digit m2 then Some [m1, m2] else None
                         | _ \<Rightarrow> None);
                   r' = dropWhile is_space (case g2 of None \<Rightarrow> r | Some _ \<Rightarrow> drop 3 r);
                   g3 = find (startswith r') [''am'', ''pm'']
               in Some (g1, g2, g3))"

fun search_time :: "string \<Rightarrow> (string \<times> string option \<times> string option) option" where
  "search_time [] = None"
| "search_time (c # cs) =
     (case match_time (c # cs) of Some g \<Rightarrow> Some g | None \<Rightarrow> search_time cs)"

text \<open>
  The piece \<^verbatim>\<open>(\d+)(?::(\d+))?\s*(am|pm)?\s*\<close> of the second pattern, with the
  text left after it.
\<close>

definition match_clock ::
  "string \<Rightarrow> (string \<times> string option \<times> string option \<times> string) option" where
  "match_clock s =
     (let h = takeWhile is_digit s; r = dropWhile is_digit s
      in if h = [] then None
         else let m = (case r of
                         [] \<Rightarrow> None
                       | k # r1 \<Rightarrow>
                           if k = CHR '':'' \<and> takeWhile is_digit r1 \<noteq> []
                           then Some (takeWhile is_digit r1) else None);
                  r' = dropWhile is_space
                         (case m of None \<Rightarrow> r | Some _ \<Rightarrow> dropWhile is_digit (drop 1 r));
                  p = find (startswith r') [''am'', ''pm''];
                  r'' = dropWhile is_space (case p of None \<Rightarrow> r' | Some _ \<Rightarrow> drop 2 r')
              in Some (h, m, p, r''))"

text \<open>
  \<^verbatim>\<open>re.search(r"between (\d+)(?::(\d+))?\s*(am|pm)?\s*(?:-|and)\s*(\d+)(?::(\d+))?\s*(am|pm)?", s)\<close>.
  No shorter choice of a greedy piece lets the separator match where the longest
  one does not.
\<close>

definition match_between ::
  "string \<Rightarrow> ((string \<times> string option \<times> string option)
               \<times> (string \<times> string option \<times> string option)) option" where
  "match_between s =
     (if \<not> startswith s ''between '' then None
      else case match_clock (drop 8 s) of
        None \<Rightarrow> None
      | Some (g1, g2, g3, r) \<Rightarrow>
          (case (if startswith r ''-'' then Some (drop 1 r)
                 else if startswith r ''and'' then Some (drop 3 r) else None) of
             None \<Rightarrow> None
           | Some r' \<Rightarrow>
               (case match_clock (dropWhile is_space r') of
                  None \<Rightarrow> None
                | Some (g4, g5, g6, _) \<Rightarrow> Some ((g1, g2, g3), (g4, g5, g6)))))"

fun search_between ::
  "string \<Rightarrow> ((string \<times> string option \<times> string option)
               \<times> (string \<times> string option \<times> string option)) option" where
  "search_between [] = None"
| "search_between (c # cs) =
     (case match_between (c # cs) of Some g \<Rightarrow> Some g | None \<Rightarrow> search_between cs)"

text \<open>
  The clock arithmetic both patterns share: \<^verbatim>\<open>int(group)\<close>,
  \<^verbatim>\<open>int(group or 0)\<close> and the am/pm adjustment of the hour.
\<close>

definition clock_of ::
  "string \<times> string option \<times> string option \<Rightarrow> py_error + int \<times> int" where
  "clock_of g =
     (case g of (hour_s, minute_s, period) \<Rightarrow>
        bind (int_of_str hour_s) (\<lambda>hour.
        bind (case minute_s of None \<Rightarrow> Inr 0 | Some m \<Rightarrow> int_of_str m) (\<lambda>minute.
        Inr (if period = Some ''pm'' \<and> hour < 12 then hour + 12
             else if period = Some ''am'' \<and> hour = 12 then 0
             else hour, minute))))"

definition workdays :: "string list" where
  "workdays = [''monday'', ''tuesday'', ''wednesday'', ''thursday'', ''friday'']"

text \<open>
  \<^verbatim>\<open>BookingAgent._simple_extraction\<close>, in its three steps: the date keywords,
  the clock time, and the "between" range, which replaces the time and the duration.
\<close>

definition fallback_date :: "string \<Rightarrow> py_error + string" where
  "fallback_date user_input =
     (if sub_in ''tomorrow'' user_input then Inr ''tomorrow''
      else if list_ex (\<lambda>day. sub_in day user_input) workdays
      then (case filter (\<lambda>d. sub_in d user_input) workdays of
              [] \<Rightarrow> Inl IndexError
            | d # _ \<Rightarrow> Inr (''next '' @ d))
      else if sub_in ''next week'' user_input then Inr ''next week''
      else Inr ''today'')"

definition fallback_time :: "string \<Rightarrow> py_error + string" where
  "fallback_time user_input =
     (if sub_in ''afternoon'' user_input then Inr ''14:00''
      else if sub_in ''morning'' user_input then Inr ''09:00''
      else if sub_in ''evening'' user_input then Inr ''17:00''
      else (case search_time user_input of
              None \<Rightarrow> Inr ''12:00''
            | Some g \<Rightarrow>
                bind (clock_of g) (\<lambda>(hour, minute).
                bind (format_02d hour) (\<lambda>hh.
                bind (format_02d minute) (\<lambda>mm.
                Inr (hh @ '':'' @ mm))))))"

definition fallback_range :: "string \<Rightarrow> string \<Rightarrow> py_error + string \<times> int" where
  "fallback_range user_input time1 =
     (if sub_in ''between'' user_input \<and> (sub_in ''-'' user_input \<or> sub_in ''and'' user_input)
      then (case search_between user_input of
              None \<Rightarrow> Inr (time1, 30)
            | Some (g_start, g_end) \<Rightarrow>
                bind (clock_of g_start) (\<lambda>(start_hour, start_min).
                bind (clock_of g_end) (\<lambda>(end_hour, end_min).
                bind (format_02d start_hour) (\<lambda>sh.
                bind (format_02d start_min) (\<lambda>sm.
                bind (format_02d end_hour) (\<lambda>eh.
                bind (format_02d end_min) (\<lambda>em.
                Inr (sh @ '':'' @ sm @ ''-'' @ eh @ '':'' @ em,
                     (end_hour * 60 + end_min) - (start_hour * 60 + start_min)))))))))
      else Inr (time1, 30))"

definition simple_extraction ::
  "string \<Rightarrow> conversation_state \<Rightarrow> py_error + conversation_state" where
  "simple_extraction user_input0 cs =
     (let user_input = lower user_input0 in
      bind (fallback_date user_input) (\<lambda>date1.
      bind (fallback_time user_input) (\<lambda>time1.
      bind (fallback_range user_input time1) (\<lambda>(time2, duration2).
      Inr (cs\<lparr>extracted_details :=
                 Some \<lparr>date = JStr date1, time = JStr time2, duration = duration2,
                       purpose = JStr ''Meeting''\<rparr>\<rparr>)))))"






text \<open>\<^verbatim>\<open>int(x)\<close> on a parsed JSON value.\<close>

fun int_of_json :: "json \<Rightarrow> py_error + int" where
  "int_of_json (JInt n) = Inr n"
| "int_of_json (JBool b) = Inr (if b then 1 else 0)"
| "int_of_json (JStr s) = int_of_str s"
| "int_of_json v = Inl TypeError"

definition dict_get :: "(string \<times> json) list \<Rightarrow> string \<Rightarrow> json \<Rightarrow> json" where
  "dict_get d k dflt = (case map_of d k of None \<Rightarrow> dflt | Some v \<Rightarrow> v)"

text \<open>
  The three ways \<^verbatim>\<open>extract_details\<close> cuts the JSON text out of the model's
  answer: after a \<^verbatim>\<open>```json\<close> fence, after a plain fence, or from the first
  opening to the last closing brace.
\<close>

definition strip_fences :: "string \<Rightarrow> py_error + string" where
  "strip_fences content0 =
     (let json_str = strip content0 in
      if sub_in ''```json'' json_str
      then (case split ''```json'' json_str of
              _ # p # _ \<Rightarrow>
                (case split ''```'' p of [] \<Rightarrow> Inl IndexError | q # _ \<Rightarrow> Inr (strip q))
            | _ \<Rightarrow> Inl IndexError)
      else if sub_in ''```'' json_str
      then (case split ''```'' json_str of _ # p # _ \<Rightarrow> Inr (strip p) | _ \<Rightarrow> Inl IndexError)
      else if sub_in ''{'' json_str \<and> sub_in ''}'' json_str
      then (let i = length (takeWhile (\<lambda>c. c \<noteq> CHR ''{'') json_str);
                j = length json_str - 1 - length (takeWhile (\<lambda>c. c \<noteq> CHR ''}'') (rev json_str))
            in Inr (take (j + 1 - i) (drop i json_str)))
      else Inr json_str)"

text \<open>
  \<^verbatim>\<open>BookingAgent.extract_details\<close>. The prompt is fixed but for the user's
  text, which is what the language model is given here. A parse error
  (\<^verbatim>\<open>json.JSONDecodeError\<close>) and every other exception of the \<^verbatim>\<open>try\<close> block
  end in the fallback extraction; the state is written only after the last step that
  can raise.
\<close>

definition extract_details ::
  "env \<Rightarrow> string \<Rightarrow> conversation_state \<Rightarrow> py_error + conversation_state" where
  "extract_details e user_input cs =
     (case chat_invoke e of
        None \<Rightarrow> simple_extraction user_input cs
      | Some invoke \<Rightarrow>
          (case bind (invoke user_input) strip_fences of
             Inl err \<Rightarrow> simple_extraction user_input cs
           | Inr json_str \<Rightarrow>
               (case json_loads e json_str of
                  None \<Rightarrow> simple_extraction user_input cs
                | Some (JObj kvs) \<Rightarrow>
                    (case int_of_json (dict_get kvs ''duration'' (JInt 30)) of
                       Inl err \<Rightarrow> simple_extraction user_input cs
                     | Inr n \<Rightarrow>
                         Inr (cs\<lparr>extracted_details :=
                                    Some \<lparr>date = dict_get kvs ''date'' (JStr ''today''),
                                          time = dict_get kvs ''time'' (JStr ''12:00''),
                                          duration = n,
                                          purpose = dict_get kvs ''purpose'' (JStr ''Meeting'')\<rparr>\<rparr>))
                | Some _ \<Rightarrow> simple_extraction user_input cs)))"

section \<open>The nodes of the workflow (\<^verbatim>\<open>agent.py\<close>)\<close>

text \<open>\<^verbatim>\<open>str(x)\<close> inside an f-string.\<close>

definition str_of :: "env \<Rightarrow> json \<Rightarrow> py_error + string" where
  "str_of e v = (case v of JStr s \<Rightarrow> Inr s | JInt n \<Rightarrow> str_int n | _ \<Rightarrow> Inr (py_str e v))"

text \<open>\<^verbatim>\<open>BookingAgent.generate_inquiry_response\<close>.\<close>

definition generate_inquiry_response :: "env \<Rightarrow> conversation_state \<Rightarrow> conversation_state" where
  "generate_inquiry_response e cs =
     (case bind (parse_date e (case extracted_details cs of
                                 None \<Rightarrow> JStr '''' | Some d \<Rightarrow> date d))
             (\<lambda>date_str. case strptime_date e date_str of
                            None \<Rightarrow> Inl ValueError
                          | Some d \<Rightarrow>
             bind (case extracted_details cs of
                     None \<Rightarrow> Inr ''30'' | Some d \<Rightarrow> str_int (duration d)) (\<lambda>minutes.
             bind (case extracted_details cs of
                     None \<Rightarrow> Inr ''meeting'' | Some d \<Rightarrow> str_of e (purpose d)) (\<lambda>reason.
             Inr (''Yes, I can check availability for '' @ strftime_long_date e d @ ''.''
                  @ [CHR 0x0A]
                  @ ''Would you like me to find a '' @ minutes @ ''-minute slot ''
                  @ ''for a '' @ reason @ ''?'')))) of
        Inr response \<Rightarrow> append_message response cs
      | Inl err \<Rightarrow>
          append_message ''Sorry, I couldn't understand the date. Please try again.'' cs)"

datatype route = Check | Respond | Inquire

text \<open>
  \<^verbatim>\<open>BookingAgent._decide_after_extraction\<close>: the branch taken and the state
  with the key \<^verbatim>\<open>booking\<close> popped.
\<close>

definition decide_after_extraction ::
  "string \<Rightarrow> conversation_state \<Rightarrow> route \<times> conversation_state" where
  "decide_after_extraction user_input0 cs =
     (let user_input = lower user_input0;
          has_date = (case extracted_details cs of None \<Rightarrow> False | Some d \<Rightarrow> truthy (date d));
          has_time = (case extracted_details cs of None \<Rightarrow> False | Some d \<Rightarrow> truthy (time d));
          is_booking = list_ex (\<lambda>word. sub_in word user_input)
                         [''book'', ''schedule'', ''set up'', ''want''];
          is_inquiry = list_ex (\<lambda>word. sub_in word user_input)
                         [''free'', ''available'', ''have time'']
      in (if is_booking \<and> has_date \<and> has_time then Check
          else if is_inquiry then Inquire
          else if has_date \<and> has_time then Check
          else Respond,
          cs\<lparr>booking := None\<rparr>))"

text \<open>The list comprehension of \<^verbatim>\<open>check_availability\<close>, which stops at an exception.\<close>

fun filter_slots :: "slot list \<Rightarrow> string \<Rightarrow> string \<Rightarrow> py_error + slot list" where
  "filter_slots [] start_time end_time = Inr []"
| "filter_slots (s # ss) start_time end_time =
     bind (is_time_in_range (slot_start s) start_time end_time) (\<lambda>keep.
     bind (filter_slots ss start_time end_time) (\<lambda>rest.
     Inr (if keep then s # rest else rest)))"

text \<open>\<^verbatim>\<open>BookingAgent.check_availability\<close>.\<close>

definition check_availability ::
  "env \<Rightarrow> string \<Rightarrow> conversation_state \<Rightarrow> conversation_state" where
  "check_availability e user_id cs =
     (if user_id = [] then append_message ''Authentication error. Please sign in again.'' cs
      else case (case extracted_details cs of
                   None \<Rightarrow> Inl ValueError
                 | Some details \<Rightarrow>
                     bind (parse_date e (date details)) (\<lambda>date_str.
                     bind (parse_time (time details)) (\<lambda>(start_time, end_time).
                     let all_slots = get_available_slots e user_id date_str (duration details) in
                     bind (filter_slots all_slots start_time end_time) (\<lambda>filtered_slots.
                     Inr (cs\<lparr>available_slots :=
                                 (if filtered_slots \<noteq> [] then filtered_slots else all_slots),
                               current_slot_index := 0\<rparr>))))) of
             Inr cs' \<Rightarrow> cs'
           | Inl err \<Rightarrow> append_message ''Failed to check availability. Please try again.'' cs)"

text \<open>
  The three marks of the message texts, written in the source file as the characters
  U+00F0 U+0178 U+201C U+2026, U+00E2 U+0153 U+2026 and U+00F0 U+0178 U+201D U+2014,
  given as their UTF-8 bytes.
\<close>

definition calendar_mark :: string where
  "calendar_mark = [CHR 0xC3, CHR 0xB0, CHR 0xC5, CHR 0xB8, CHR 0xE2, CHR 0x80, CHR 0x9C,
                    CHR 0xE2, CHR 0x80, CHR 0xA6]"

definition check_mark :: string where
  "check_mark = [CHR 0xC3, CHR 0xA2, CHR 0xC5, CHR 0x93, CHR 0xE2, CHR 0x80, CHR 0xA6]"

definition link_mark :: string where
  "link_mark = [CHR 0xC3, CHR 0xB0, CHR 0xC5, CHR 0xB8, CHR 0xE2, CHR 0x80, CHR 0x9D,
                CHR 0xE2, CHR 0x80, CHR 0x94]"

definition offer_text :: "env \<Rightarrow> slot \<Rightarrow> string" where
  "offer_text e s =
     ''I found an available slot:'' @ [CHR 0x0A]
     @ calendar_mark @ '' '' @ format_datetime e (isoformat e (slot_start s)) @ '' - ''
     @ format_datetime e (isoformat e (slot_end s)) @ [CHR 0x0A]
     @ ''Would this work for you? (Yes/No)''"

text \<open>
  \<^verbatim>\<open>BookingAgent.suggest_slots\<close>. Offering a slot sets the key
  \<^verbatim>\<open>messages\<close> to a new one-element list; the two other branches append.
\<close>

definition suggest_slots :: "env \<Rightarrow> conversation_state \<Rightarrow> conversation_state" where
  "suggest_slots e cs =
     (let idx = current_slot_index cs in
      if available_slots cs = []
      then append_message
             ''No available slots found for your requested time. Please try another time.'' cs
      else if idx < length (available_slots cs)
      then (let s = available_slots cs ! idx in
            cs\<lparr>suggested_slot := Some s,
               current_slot_index := idx + 1,
               messages := [AIMessage (offer_text e s)]\<rparr>)
      else append_message
             ''No more available slots for your requested time. Please try another time.'' cs)"

text \<open>\<^verbatim>\<open>BookingAgent.finalize_booking\<close>.\<close>

definition finalize_booking ::
  "env \<Rightarrow> string \<Rightarrow> conversation_state \<Rightarrow> conversation_state" where
  "finalize_booking e user_id cs =
     (if user_id = [] then append_message ''Authentication error. Please sign in again.'' cs
      else case suggested_slot cs of
        None \<Rightarrow> append_message ''No appointment slot selected. Please start over.'' cs
      | Some s \<Rightarrow>
          (case book_appointment e user_id (slot_start s) (slot_end s)
                  (case extracted_details cs of
                     None \<Rightarrow> JStr ''Meeting'' | Some d \<Rightarrow> purpose d) of
             Inr b \<Rightarrow> cs\<lparr>booking := Some b\<rparr>
           | Inl err \<Rightarrow> append_message ''Failed to book appointment. Please try again.'' cs))"

text \<open>
  \<^verbatim>\<open>BookingAgent.generate_response\<close>. Reading \<^verbatim>\<open>booking['start']\<close> from an
  empty dictionary raises \<^verbatim>\<open>KeyError\<close>, which leaves the function.
\<close>

definition response_text :: "env \<Rightarrow> conversation_state \<Rightarrow> py_error + string" where
  "response_text e cs =
     (case booking cs of
        Some Empty_result \<Rightarrow> Inl KeyError
      | Some (Created b) \<Rightarrow>
          Inr (check_mark @ '' Appointment booked!'' @ [CHR 0x0A]
               @ calendar_mark @ '' When: '' @ format_datetime e (booking_start b) @ '' - ''
               @ format_datetime e (booking_end b) @ [CHR 0x0A]
               @ link_mark @ '' Link: '' @ htmlLink b)
      | None \<Rightarrow>
          if available_slots cs = [] then Inr ''No available slots found for your requested time.''
          else Inr ''How would you like to proceed?'')"

definition generate_response :: "env \<Rightarrow> conversation_state \<Rightarrow> py_error + conversation_state" where
  "generate_response e cs =
     bind (response_text e cs) (\<lambda>response.
     Inr (if \<not> list_ex (\<lambda>msg. content msg = response) (messages cs)
          then append_message response cs else cs))"

section \<open>A turn (\<^verbatim>\<open>agent.py\<close>)\<close>

text \<open>
  The compiled graph: extract, then the branch, then check, suggest, confirm and
  respond. The nodes change the user's dictionary in place, so when a node raises, the
  state it was given is what the store keeps; the result is that state and the
  exception, if any.
\<close>

fun respond_node ::
  "env \<Rightarrow> conversation_state \<Rightarrow> py_error + conversation_state
     \<Rightarrow> conversation_state \<times> py_error option" where
  "respond_node e cs (Inl err) = (cs, Some err)"
| "respond_node e cs (Inr cs') = (cs', None)"

definition respond :: "env \<Rightarrow> conversation_state \<Rightarrow> conversation_state \<times> py_error option" where
  "respond e cs = respond_node e cs (generate_response e cs)"

text \<open>The edges check, suggest, confirm, respond.\<close>

definition check_path ::
  "env \<Rightarrow> string \<Rightarrow> conversation_state \<Rightarrow> conversation_state \<times> py_error option" where
  "check_path e user_id cs =
     respond e (finalize_booking e user_id (suggest_slots e (check_availability e user_id cs)))"

text \<open>The conditional edges out of the extraction, and the edge from inquire to check.\<close>

fun conditional_edges ::
  "env \<Rightarrow> string \<Rightarrow> route \<times> conversation_state \<Rightarrow> conversation_state \<times> py_error option" where
  "conditional_edges e user_id (Check, cs) = check_path e user_id cs"
| "conditional_edges e user_id (Inquire, cs) =
     check_path e user_id (generate_inquiry_response e cs)"
| "conditional_edges e user_id (Respond, cs) = respond e cs"

fun after_extract ::
  "env \<Rightarrow> string \<Rightarrow> string \<Rightarrow> conversation_state \<Rightarrow> py_error + conversation_state
     \<Rightarrow> conversation_state \<times> py_error option" where
  "after_extract e user_id user_input cs (Inl err) = (cs, Some err)"
| "after_extract e user_id user_input cs (Inr cs') =
     conditional_edges e user_id (decide_after_extraction user_input cs')"

definition workflow ::
  "env \<Rightarrow> string \<Rightarrow> string \<Rightarrow> conversation_state \<Rightarrow> conversation_state \<times> py_error option" where
  "workflow e user_id user_input cs =
     after_extract e user_id user_input cs (extract_details e user_input cs)"

definition new_conversation :: conversation_state where
  "new_conversation =
     \<lparr>messages = [], extracted_details = None, state = ''awaiting_input'',
      available_slots = [], current_slot_index = 0, suggested_slot = None, booking = None\<rparr>"

text \<open>The content of the last assistant message, or the default.\<close>

definition last_message :: "message list \<Rightarrow> string" where
  "last_message msgs =
     (case filter is_ai (rev msgs) of
        [] \<Rightarrow> ''Sorry, I didn't understand that.''
      | msg # _ \<Rightarrow> content msg)"

text \<open>
  \<^verbatim>\<open>BookingAgent.process_message\<close>, on the store \<^verbatim>\<open>self.conversations\<close>: the
  answer and the store after the turn. The user id is \<open>None\<close> for Python's
  \<^verbatim>\<open>None\<close>. A first turn creates the user's dictionary; the user's message is
  appended before the graph runs; an exception that leaves the graph is answered by a
  fixed text.
\<close>

fun session_of :: "conversation_state option \<Rightarrow> conversation_state" where
  "session_of None = new_conversation"
| "session_of (Some cs) = cs"

fun end_turn ::
  "(string \<rightharpoonup> conversation_state) \<Rightarrow> string \<Rightarrow> conversation_state \<times> py_error option
     \<Rightarrow> string \<times> (string \<rightharpoonup> conversation_state)" where
  "end_turn conversations user_id (cs, None) =
     (last_message (messages cs), conversations(user_id \<mapsto> cs))"
| "end_turn conversations user_id (cs, Some err) =
     (''Sorry, I encountered an error. Please try again.'', conversations(user_id \<mapsto> cs))"

fun process_message ::
  "env \<Rightarrow> (string \<rightharpoonup> conversation_state) \<Rightarrow> string \<Rightarrow> string option
     \<Rightarrow> string \<times> (string \<rightharpoonup> conversation_state)" where
  "process_message e conversations message None =
     (''Authentication error. Please sign in again.'', conversations)"
| "process_message e conversations message (Some user_id) =
     (if user_id = [] then (''Authentication error. Please sign in again.'', conversations)
      else end_turn conversations user_id
             (workflow e user_id message
                (session_of (conversations user_id)
                   \<lparr>messages := messages (session_of (conversations user_id))
                                  @ [HumanMessage message]\<rparr>)))"

text \<open>
  The states of a session: the one a first turn creates, and what receiving a message
  and the nodes of the graph make of a state, whatever the collaborators answer and in
  whatever order the nodes run. A node that raises leaves the state it was given.
\<close>

inductive reachable :: "conversation_state \<Rightarrow> bool" where
  created: "reachable new_conversation"
| received: "reachable cs \<Longrightarrow> reachable (cs\<lparr>messages := messages cs @ [HumanMessage message]\<rparr>)"
| extracted: "reachable cs \<Longrightarrow> extract_details e user_input cs = Inr cs' \<Longrightarrow> reachable cs'"
| decided: "reachable cs \<Longrightarrow> reachable (snd (decide_after_extraction user_input cs))"
| inquired: "reachable cs \<Longrightarrow> reachable (generate_inquiry_response e cs)"
| checked: "reachable cs \<Longrightarrow> reachable (check_availability e user_id cs)"
| suggested: "reachable cs \<Longrightarrow> reachable (suggest_slots e cs)"
| confirmed: "reachable cs \<Longrightarrow> reachable (finalize_booking e user_id cs)"
| responded: "reachable cs \<Longrightarrow> generate_response e cs = Inr cs' \<Longrightarrow> reachable cs'"

section \<open>A concrete environment for the examples\<close>

text \<open>
  The proleptic Gregorian calendar as Python's \<^verbatim>\<open>datetime\<close> computes it
  (\<^verbatim>\<open>_ord2ymd\<close>, \<^verbatim>\<open>_ymd2ord\<close>), and the formats the code asks for.
\<close>

definition is_leap :: "int \<Rightarrow> bool" where
  "is_leap y = (if y mod 4 = 0 then (if y mod 100 = 0 then y mod 400 = 0 else True) else False)"

definition days_before_month :: "int \<Rightarrow> int \<Rightarrow> int" where
  "days_before_month y m =
     [0, 31, 59, 90, 120, 151, 181, 212, 243, 273, 304, 334] ! nat (m - 1)
     + (if m > 2 \<and> is_leap y then 1 else 0)"

definition days_in_month :: "int \<Rightarrow> int \<Rightarrow> int" where
  "days_in_month y m =
     (if m = 2 \<and> is_leap y then 29
      else [31, 28, 31, 30, 31, 30, 31, 31, 30, 31, 30, 31] ! nat (m - 1))"

definition ordinal_of_ymd :: "int \<Rightarrow> int \<Rightarrow> int \<Rightarrow> int" where
  "ordinal_of_ymd y m d =
     (y - 1) * 365 + (y - 1) div 4 - (y - 1) div 100 + (y - 1) div 400
     + days_before_month y m + d"

definition ymd_of_ordinal :: "int \<Rightarrow> int \<times> int \<times> int" where
  "ymd_of_ordinal n0 =
     (let n = n0 - 1;
          n400 = n div 146097; n1' = n mod 146097;
          n100 = n1' div 36524; n2' = n1' mod 36524;
          n4 = n2' div 1461; n3' = n2' mod 1461;
          n1 = n3' div 365; n4' = n3' mod 365;
          year = n400 * 400 + 1 + n100 * 100 + n4 * 4 + n1
      in if n1 = 4 \<or> n100 = 4 then (year - 1, 12, 31)
         else let month0 = (n4' + 50) div 32;
                  month = (if days_before_month year month0 > n4' then month0 - 1 else month0)
              in (year, month, n4' - days_before_month year month + 1))"

definition pad :: "nat \<Rightarrow> int \<Rightarrow> string" where
  "pad w n = replicate (w - length (show_nat n)) CHR ''0'' @ show_nat n"

definition demo_strftime_date :: "int \<Rightarrow> string" where
  "demo_strftime_date d =
     (case ymd_of_ordinal d of (y, m, dd) \<Rightarrow> pad 4 y @ ''-'' @ pad 2 m @ ''-'' @ pad 2 dd)"

definition demo_strptime_date :: "string \<Rightarrow> int option" where
  "demo_strptime_date s =
     (case map py_int (split ''-'' s) of
        [Some y, Some m, Some d] \<Rightarrow>
          if list_all is_digit (filter (\<lambda>c. c \<noteq> CHR ''-'') s) \<and> 1 \<le> y \<and> y \<le> 9999
             \<and> 1 \<le> m \<and> m \<le> 12 \<and> 1 \<le> d \<and> d \<le> days_in_month y m
          then Some (ordinal_of_ymd y m d) else None
      | _ \<Rightarrow> None)"

definition day_names :: "string list" where
  "day_names = [''Monday'', ''Tuesday'', ''Wednesday'', ''Thursday'', ''Friday'', ''Saturday'',
                ''Sunday'']"

definition month_names :: "string list" where
  "month_names = [''January'', ''February'', ''March'', ''April'', ''May'', ''June'', ''July'',
                  ''August'', ''September'', ''October'', ''November'', ''December'']"

definition demo_strftime_long_date :: "int \<Rightarrow> string" where
  "demo_strftime_long_date d =
     (case ymd_of_ordinal d of (y, m, dd) \<Rightarrow>
        day_names ! nat (weekday d) @ '', '' @ month_names ! nat (m - 1) @ '' '' @ pad 2 dd)"

definition demo_strftime_datetime :: "int \<Rightarrow> string" where
  "demo_strftime_datetime t =
     (case ymd_of_ordinal (t div 86400) of (y, m, dd) \<Rightarrow>
        take 3 (day_names ! nat (weekday (t div 86400))) @ '' ''
        @ take 3 (month_names ! nat (m - 1)) @ '' '' @ pad 2 dd @ '', '' @ display_time t)"

definition demo_isoformat :: "int \<Rightarrow> string" where
  "demo_isoformat t =
     demo_strftime_date (t div 86400) @ ''T'' @ pad 2 ((t mod 86400) div 3600) @ '':''
     @ pad 2 ((t mod 3600) div 60) @ '':'' @ pad 2 (t mod 60) @ ''+05:30''"

definition demo_fromisoformat :: "string \<Rightarrow> int option" where
  "demo_fromisoformat s =
     (case (demo_strptime_date (take 10 s),
            map py_int (split '':'' (take 8 (drop 11 s)))) of
        (Some d, [Some h, Some m, Some sec]) \<Rightarrow>
          if take 1 (drop 10 s) = ''T'' then Some (d * 86400 + h * 3600 + m * 60 + sec) else None
      | _ \<Rightarrow> None)"

text \<open>
  The example world: Monday 2024-01-01; a language model that answers in prose, so
  that no JSON is found; credentials for \<^verbatim>\<open>alice\<close> only; a calendar that is busy
  from 10:00 to 10:30 every day and accepts every event.
\<close>

definition demo_env :: env where
  "demo_env =
     \<lparr>today = 738886,
      strftime_date = demo_strftime_date,
      strptime_date = demo_strptime_date,
      strftime_long_date = demo_strftime_long_date,
      dateparser_parse = (\<lambda>s. None),
      isoformat = demo_isoformat,
      fromisoformat = demo_fromisoformat,
      strftime_datetime = demo_strftime_datetime,
      py_str = (\<lambda>v. ''None''),
      chat_invoke = Some (\<lambda>user_input. Inr ''I am sorry, I cannot do that.''),
      json_loads = (\<lambda>s. None),
      credentials = (\<lambda>user_id. user_id = ''alice''),
      freebusy_query = (\<lambda>user_id time_min time_max. Some [(time_min + 3600, time_min + 5400)]),
      events_insert = (\<lambda>user_id summary start_dt end_dt.
         Some \<lparr>booking_id = ''evt1'', htmlLink = ''https://calendar.example/evt1'',
               booking_start = demo_isoformat start_dt, booking_end = demo_isoformat end_dt\<rparr>)\<rparr>"

text \<open>
  Three variants: a calendar with no busy interval; one that in addition fails to
  create events; and a language model that answers with a JSON object whose date is
  null.
\<close>

definition free_env :: env where
  "free_env = demo_env\<lparr>freebusy_query := (\<lambda>user_id time_min time_max. Some [])\<rparr>"

definition failing_env :: env where
  "failing_env = free_env\<lparr>events_insert := (\<lambda>user_id summary start_dt end_dt. None)\<rparr>"


text \<open>
  Example sessions of the user \<^verbatim>\<open>alice\<close>, each from an empty store. The first
  asks for a slot of 470 minutes, of which the working day holds one (09:00-16:50), and
  then for one of 540 minutes, which it cannot hold.
\<close>

definition slot_0900 :: slot where
  "slot_0900 = \<lparr>slot_start = 738886 * 86400 + 9 * 3600,
                slot_end = 738886 * 86400 + 16 * 3600 + 50 * 60,
                slot_display = ''09:00 AM''\<rparr>"

definition long_turn1 :: "string \<times> (string \<rightharpoonup> conversation_state)" where
  "long_turn1 = process_message free_env Map.empty ''book between 9am and 4:50pm'' (Some ''alice'')"

definition long_turn2 :: "string \<times> (string \<rightharpoonup> conversation_state)" where
  "long_turn2 = process_message free_env (snd long_turn1) ''book between 9am and 6pm'' (Some ''alice'')"

definition failed_turn :: "string \<times> (string \<rightharpoonup> conversation_state)" where
  "failed_turn =
     process_message failing_env Map.empty ''book between 9am and 4:50pm'' (Some ''alice'')"




text \<open>
  The session after the extraction of the first request; the session the store keeps
  after the first turn; and that one with a time of day that cannot be read.
\<close>

definition extracted_state :: conversation_state where
  "extracted_state =
     new_conversation\<lparr>extracted_details :=
       Some \<lparr>date = JStr ''today'', time = JStr ''09:00-16:50'', duration = 470,
             purpose = JStr ''Meeting''\<rparr>\<rparr>"

definition turn1_state :: conversation_state where
  "turn1_state = session_of (snd long_turn1 ''alice'')"

definition unreadable_state :: conversation_state where
  "unreadable_state =
     turn1_state\<lparr>extracted_details :=
       Some \<lparr>date = JStr ''today'', time = JStr ''soon'', duration = 30,
             purpose = JStr ''Meeting''\<rparr>\<rparr>"


section \<open>Properties\<close>

text \<open>
  C6. The time-point normalisation strips am/pm, reads a token without a colon as a
  whole hour and adds 12 to a pm hour below 12, but it has no case for an am hour of
  12: on \<^verbatim>\<open>12am\<close> it returns \<^verbatim>\<open>12:00\<close>, where the specification asks for
  \<^verbatim>\<open>00:00\<close>.
\<close>

theorem normalize_time_12am:
  "normalize_time ''12am'' = Inr ''12:00''"
  by code_simp





text \<open>
  C10. For every message text, a turn with an empty user id (Python's \<^verbatim>\<open>None\<close> or
  the empty string) returns the fixed authentication text and leaves the conversation
  store as it was.
\<close>

theorem process_message_no_user_id:
  "process_message e conversations message None =
     (''Authentication error. Please sign in again.'', conversations)
   \<and> process_message e conversations message (Some '''') =
     (''Authentication error. Please sign in again.'', conversations)"
  by simp

lemma is_available_iff:
  "is_available s t busy_slots \<longleftrightarrow> list_all (\<lambda>(b, c). t \<le> b \<or> s \<ge> c) busy_slots"
  by (induction busy_slots) (auto split: if_splits)

lemma get_available_slots_eq:
  assumes "get_credentials e user_id" and "strptime_date e date_s = Some d"
    and "freebusy_query e user_id (d * 86400 + 9 * 3600) (d * 86400 + 17 * 3600) = Some busy_slots"
  shows "get_available_slots e user_id date_s duration_minutes =
           map (\<lambda>(s, t). \<lparr>slot_start = s, slot_end = t, slot_display = display_time s\<rparr>)
             (filter (\<lambda>(s, t). is_available s t busy_slots)
                (possible_slots_from (d * 86400 + 9 * 3600) (duration_minutes * 60)
                   (d * 86400 + 17 * 3600)))"
  using assms by (simp add: get_available_slots_def Let_def)

text \<open>
  C1. When the credential, the date and the calendar's free/busy answer are there (in
  every other case the engine returns no slot at all), no returned slot overlaps a busy
  interval under the half-open test: there are no returned slot s and busy interval b
  with s.start < b.end and s.end > b.start. With the single busy interval 10:00-10:30
  and a duration of 30 minutes the first returned slot starts at 09:00.
\<close>

theorem get_available_slots_no_overlap:
  assumes "get_credentials e user_id" and "strptime_date e date_s = Some d"
    and "freebusy_query e user_id (d * 86400 + 9 * 3600) (d * 86400 + 17 * 3600) = Some busy_slots"
  shows "(\<forall>s \<in> set (get_available_slots e user_id date_s duration_minutes).
            \<forall>(busy_start, busy_end) \<in> set busy_slots.
              \<not> (slot_start s < busy_end \<and> slot_end s > busy_start))
         \<and> (busy_slots = [(d * 86400 + 10 * 3600, d * 86400 + 10 * 3600 + 30 * 60)]
              \<and> duration_minutes = 30 \<longrightarrow>
            get_available_slots e user_id date_s duration_minutes \<noteq> []
            \<and> slot_start (hd (get_available_slots e user_id date_s duration_minutes))
                = d * 86400 + 9 * 3600)"
proof (intro conjI impI)
  show "\<forall>s \<in> set (get_available_slots e user_id date_s duration_minutes).
            \<forall>(busy_start, busy_end) \<in> set busy_slots.
              \<not> (slot_start s < busy_end \<and> slot_end s > busy_start)"
    unfolding get_available_slots_eq [OF assms]
    by (auto simp: is_available_iff list_all_iff)
next
  assume ex: "busy_slots = [(d * 86400 + 10 * 3600, d * 86400 + 10 * 3600 + 30 * 60)]
              \<and> duration_minutes = 30"
  have "possible_slots_from (d * 86400 + 9 * 3600) (30 * 60) (d * 86400 + 17 * 3600) =
          (d * 86400 + 9 * 3600, d * 86400 + 9 * 3600 + 30 * 60)
            # possible_slots_from (d * 86400 + 9 * 3600 + 15 * 60) (30 * 60) (d * 86400 + 17 * 3600)"
    by (subst possible_slots_from.simps) simp
  with ex have first:
    "get_available_slots e user_id date_s duration_minutes =
       \<lparr>slot_start = d * 86400 + 9 * 3600, slot_end = d * 86400 + 9 * 3600 + 30 * 60,
        slot_display = display_time (d * 86400 + 9 * 3600)\<rparr>
       # map (\<lambda>(s, t). \<lparr>slot_start = s, slot_end = t, slot_display = display_time s\<rparr>)
           (filter (\<lambda>(s, t). is_available s t busy_slots)
              (possible_slots_from (d * 86400 + 9 * 3600 + 15 * 60) (30 * 60)
                 (d * 86400 + 17 * 3600)))"
    unfolding get_available_slots_eq [OF assms] by simp
  show "get_available_slots e user_id date_s duration_minutes \<noteq> []"
    unfolding first by simp
  show "slot_start (hd (get_available_slots e user_id date_s duration_minutes))
          = d * 86400 + 9 * 3600"
    unfolding first by simp
qed

theorem get_available_slots_no_overlap_witness:
  "get_credentials demo_env ''alice''
   \<and> strptime_date demo_env ''2024-01-02'' = Some 738887
   \<and> freebusy_query demo_env ''alice'' (738887 * 86400 + 9 * 3600) (738887 * 86400 + 17 * 3600)
       = Some [(738887 * 86400 + 10 * 3600, 738887 * 86400 + 10 * 3600 + 30 * 60)]
   \<and> get_available_slots demo_env ''alice'' ''2024-01-02'' 30 \<noteq> []
   \<and> slot_start (hd (get_available_slots demo_env ''alice'' ''2024-01-02'' 30))
       = 738887 * 86400 + 9 * 3600
   \<and> list_all (\<lambda>s. \<not> (slot_start s < 738887 * 86400 + 10 * 3600 + 30 * 60
                        \<and> slot_end s > 738887 * 86400 + 10 * 3600))
        (get_available_slots demo_env ''alice'' ''2024-01-02'' 30)"
proof -
  have h1: "get_credentials demo_env ''alice''"
    by (simp add: get_credentials_def demo_env_def)
  have h2: "strptime_date demo_env ''2024-01-02'' = Some 738887"
    by code_simp
  have h3: "freebusy_query demo_env ''alice'' (738887 * 86400 + 9 * 3600) (738887 * 86400 + 17 * 3600)
       = Some [(738887 * 86400 + 10 * 3600, 738887 * 86400 + 10 * 3600 + 30 * 60)]"
    by (simp add: demo_env_def)
  from get_available_slots_no_overlap [OF h1 h2 h3, of 30] h1 h2 h3
  show ?thesis by (simp add: list_all_iff)
qed




text \<open>
  C3 fails on the code. A turn whose calendar cannot create the event: the empty
  result of the calendar service is stored under the key \<^verbatim>\<open>booking\<close>, no apology
  is appended to the messages (the offer is the only one), and the respond node raises
  on the empty booking, so the turn answers with the text for an unexpected error. The
  suggested slot does remain.
\<close>

theorem finalize_booking_calendar_failure:
  "fst failed_turn = ''Sorry, I encountered an error. Please try again.''
   \<and> map_option booking (snd failed_turn ''alice'') = Some (Some Empty_result)
   \<and> map_option suggested_slot (snd failed_turn ''alice'') = Some (Some slot_0900)
   \<and> map_option messages (snd failed_turn ''alice'')
       = Some [AIMessage (offer_text failing_env slot_0900)]"
  by code_simp

text \<open>
  C5 fails on the code. Offering a slot replaces the message sequence by the offer
  alone: after the first turn of the session no user message is left, and after the
  second turn the only user message is that turn's own.
\<close>

theorem suggest_slots_drops_messages:
  "map_option (filter (\<lambda>m. \<not> is_ai m) \<circ> messages) (snd long_turn1 ''alice'') = Some []
   \<and> map_option (filter (\<lambda>m. \<not> is_ai m) \<circ> messages) (snd long_turn2 ''alice'')
       = Some [HumanMessage ''book between 9am and 6pm'']
   \<and> messages (suggest_slots free_env
                  (new_conversation\<lparr>messages := [HumanMessage ''book between 9am and 4:50pm''],
                                    available_slots := [slot_0900]\<rparr>))
       = [AIMessage (offer_text free_env slot_0900)]"
  by code_simp

subsection \<open>Digits, the digit limit and the hour fields\<close>

text \<open>
  Facts about the conversions between integers and decimal strings: what is formatted
  is read back, a string of digits within the limit is read as a number that can be
  formatted again, and the two times \<^verbatim>\<open>_parse_time\<close> returns have an hour
  field that \<^verbatim>\<open>_is_time_in_range\<close> can read.
\<close>

lemma bind_Inr:
  assumes "case_sum Inl f r = Inr y"
  obtains x where "r = Inr x" and "f x = Inr y"
  using assms by (cases r) auto

lemma is_digit_plain:
  assumes "is_digit c"
  shows "\<not> is_space c" and "c \<noteq> CHR ''-''" and "c \<noteq> CHR ''+''" and "c \<noteq> CHR ''_''"
  using assms by (auto simp: is_digit_def is_space_def)

lemma digit_cases:
  "0 \<le> d \<Longrightarrow> d < 10 \<Longrightarrow>
     d = 0 \<or> d = 1 \<or> d = 2 \<or> d = 3 \<or> d = 4 \<or> d = 5 \<or> d = 6 \<or> d = 7 \<or> d = 8 \<or> d = (9::int)"
  by arith

lemma digit_char_digit:
  assumes "0 \<le> d" and "d < 10"
  shows "is_digit (digit_char d)" and "digit_val (digit_char d) = d"
  using digit_cases [OF assms]
  by (auto simp: digit_char_def is_digit_def digit_val_def)

lemma show_nat_digits:
  "0 \<le> n \<Longrightarrow> show_nat n \<noteq> [] \<and> list_all is_digit (show_nat n)"
proof (induction n rule: show_nat.induct)
  case (1 n)
  show ?case
  proof (cases "n < 10")
    case True
    with 1(2) show ?thesis
      by (subst (1 2) show_nat.simps) (simp add: digit_char_digit)
  next
    case False
    with 1 have "list_all is_digit (show_nat (n div 10))" by simp
    moreover have "is_digit (digit_char (n mod 10))"
      by (simp add: digit_char_digit)
    ultimately show ?thesis using False
      by (subst (1 2) show_nat.simps) simp
  qed
qed

lemma parse_digits_horner:
  "list_all is_digit s \<Longrightarrow>
     parse_digits acc s = Some (foldl (\<lambda>a c. a * 10 + digit_val c) acc s)"
proof (induction acc s rule: parse_digits.induct)
  case (3 acc c d cs)
  then have "is_digit c" "is_digit d" "list_all is_digit (d # cs)" by simp_all
  with 3 show ?case by (simp add: is_digit_plain)
qed simp_all

lemma show_nat_value:
  "0 \<le> n \<Longrightarrow> foldl (\<lambda>a c. a * 10 + digit_val c) 0 (show_nat n) = n"
proof (induction n rule: show_nat.induct)
  case (1 n)
  show ?case
  proof (cases "n < 10")
    case True
    with 1(2) show ?thesis
      by (subst show_nat.simps) (simp add: digit_char_digit)
  next
    case False
    with 1 have "foldl (\<lambda>a c. a * 10 + digit_val c) 0 (show_nat (n div 10)) = n div 10"
      by simp
    with False show ?thesis
      by (subst show_nat.simps) (simp add: digit_char_digit)
  qed
qed

lemma strip_plain:
  assumes "s \<noteq> []" and "\<not> is_space (hd s)" and "\<not> is_space (last s)"
  shows "strip s = s"
proof -
  from assms have "dropWhile is_space s = s"
    by (cases s) simp_all
  moreover from assms have "dropWhile is_space (rev s) = rev s"
    by (cases "rev s") (simp_all add: hd_rev [symmetric])
  ultimately show ?thesis by (simp add: strip_def)
qed
lemma filter_digits: "list_all is_digit s \<Longrightarrow> filter is_digit s = s"
  by (induction s) simp_all

lemma show_nat_small: "n < 10 \<Longrightarrow> show_nat n = [digit_char n]"
  by (subst show_nat.simps) simp

lemma py_int_fmt02d:
  assumes "within_str_digits h"
  shows "py_int (fmt02d h) = Some h"
proof -
  have plain: "\<not> is_space CHR ''-''" "\<not> is_space CHR ''0''" "\<not> is_digit CHR ''-''"
    "is_digit CHR ''0''"
    by (simp_all add: is_space_def is_digit_def)
  have digits: "show_nat n \<noteq> []" "list_all is_digit (show_nat n)"
    "\<not> is_space (last (show_nat n))" "\<not> is_space (hd (show_nat n))"
    "parse_digits 0 (show_nat n) = Some n"
    "parse_digits 0 (CHR ''0'' # show_nat n) = Some n"
    "filter is_digit (show_nat n) = show_nat n" if "0 \<le> n" for n
  proof -
    from show_nat_digits [OF that]
    show d: "show_nat n \<noteq> []" "list_all is_digit (show_nat n)" by simp_all
    then have "is_digit (last (show_nat n))" "is_digit (hd (show_nat n))"
      by (simp_all add: list_all_iff)
    then show "\<not> is_space (last (show_nat n))" "\<not> is_space (hd (show_nat n))"
      by (simp_all add: is_digit_plain)
    show "parse_digits 0 (show_nat n) = Some n"
      using d that by (simp add: parse_digits_horner show_nat_value)
    have "list_all is_digit (CHR ''0'' # show_nat n)"
      using d by (simp add: is_digit_def)
    moreover have "digit_val CHR ''0'' = 0"
      by (simp add: digit_val_def)
    ultimately show "parse_digits 0 (CHR ''0'' # show_nat n) = Some n"
      using that by (simp add: parse_digits_horner show_nat_value)
    show "filter is_digit (show_nat n) = show_nat n"
      using d by (simp add: filter_digits)
  qed
  consider "h < 0" | "0 \<le> h" "h < 10" | "10 \<le> h" by linarith
  then show ?thesis
  proof cases
    case 1
    then have n: "0 \<le> - h" and a: "\<bar>h\<bar> = - h" by simp_all
    have "strip (CHR ''-'' # show_nat (- h)) = CHR ''-'' # show_nat (- h)"
      using digits(1,3) [OF n] plain by (intro strip_plain) simp_all
    moreover have "\<not> max_str_digits < int (length (show_nat (- h)))"
      using assms by (simp add: within_str_digits_def a)
    ultimately show ?thesis
      using 1 digits(1,5,7) [OF n] plain by (simp add: py_int_def fmt02d_def)
  next
    case 2
    have "strip (CHR ''0'' # show_nat h) = CHR ''0'' # show_nat h"
      using digits(1,3) [OF 2(1)] plain by (intro strip_plain) simp_all
    moreover have "length (show_nat h) = 1"
      using 2 by (simp add: show_nat_small)
    ultimately show ?thesis
      using 2 digits(6,7) [OF 2(1)] plain
      by (simp add: py_int_def fmt02d_def max_str_digits_def)
  next
    case 3
    then have n: "0 \<le> h" and a: "\<bar>h\<bar> = h" by simp_all
    from digits(1,2) [OF n] obtain c cs where s: "show_nat h = c # cs" and c: "is_digit c"
      by (cases "show_nat h") auto
    have "strip (show_nat h) = show_nat h"
      using digits(1,3,4) [OF n] by (intro strip_plain) simp_all
    moreover have "\<not> max_str_digits < int (length (filter is_digit (show_nat h)))"
      using assms digits(7) [OF n] by (simp add: within_str_digits_def a)
    ultimately show ?thesis
      using 3 digits(5) [OF n] c unfolding py_int_def fmt02d_def
      by (simp add: s is_digit_plain)
  qed
qed
lemma fmt02d_no_colon: "CHR '':'' \<notin> set (fmt02d h)"
proof
  assume colon: "CHR '':'' \<in> set (fmt02d h)"
  have no: "\<not> is_digit CHR '':''"
    by (simp add: is_digit_def)
  have digit: "is_digit c" if "0 \<le> n" "c \<in> set (show_nat n)" for n c
    using show_nat_digits [OF that(1)] that(2) by (simp add: list_all_iff)
  consider "h < 0" | "0 \<le> h" "h < 10" | "10 \<le> h" by linarith
  then show False
  proof cases
    case 1
    with colon have "CHR '':'' \<in> set (show_nat (- h))" by (simp add: fmt02d_def)
    with 1 digit [of "- h"] no show False by simp
  next
    case 2
    with colon have "CHR '':'' \<in> set (show_nat h)" by (simp add: fmt02d_def)
    with 2 digit [of h] no show False by simp
  next
    case 3
    with colon have "CHR '':'' \<in> set (show_nat h)" by (simp add: fmt02d_def)
    with 3 digit [of h] no show False by simp
  qed
qed

lemma split_from_head:
  "c \<notin> set x \<Longrightarrow> split_from [c] cur (x @ c # rest) = (rev cur @ x) # split_from [c] [] rest"
  by (induction x arbitrary: cur) auto
lemma hour_field_format:
  assumes "format_02d h = Inr s"
  shows "hour_field (s @ CHR '':'' # rest) = Inr h"
proof -
  from assms have w: "within_str_digits h" and s: "s = fmt02d h"
    by (auto simp: format_02d_def split: if_splits)
  from split_from_head [OF fmt02d_no_colon [of h], of "[]" rest] py_int_fmt02d [OF w]
  show ?thesis
    by (simp add: s hour_field_def split_def int_of_str_def)
qed

lemma normalize_time_hour:
  "normalize_time s = Inr r \<Longrightarrow> \<exists>h. hour_field r = Inr h"
  unfolding normalize_time_def Let_def
  by (auto split: if_splits option.splits list.splits sum.splits simp: hour_field_format)

lemma add_minutes_hour:
  "add_minutes s m = Inr r \<Longrightarrow> \<exists>h. hour_field r = Inr h"
  unfolding add_minutes_def Let_def
  by (auto split: option.splits list.splits sum.splits simp: hour_field_format)
lemma named_times_hours:
  "list_all (\<lambda>(k, a, b). \<not> isl (hour_field a) \<and> \<not> isl (hour_field b)) named_times"
  by code_simp

lemma named_times_hour:
  assumes "map_of named_times t = Some (a, b)"
  shows "(\<exists>h. hour_field a = Inr h) \<and> (\<exists>h. hour_field b = Inr h)"
proof -
  from assms have "(t, a, b) \<in> set named_times" by (rule map_of_SomeD)
  with named_times_hours have "\<not> isl (hour_field a) \<and> \<not> isl (hour_field b)"
    by (auto simp: list_all_iff)
  then show ?thesis
    by (cases "hour_field a"; cases "hour_field b") simp_all
qed

lemma default_window_hours: "hour_field ''09:00'' = Inr 9" "hour_field ''17:00'' = Inr 17"
  by code_simp+

lemma bind_pair_hours:
  assumes "case_sum Inl (\<lambda>start. case_sum Inl (\<lambda>end_time. Inr (start, end_time)) (r2 start)) r1
             = Inr (st, en)"
    and "\<And>x. r1 = Inr x \<Longrightarrow> \<exists>h. hour_field x = Inr h"
    and "\<And>x y. r2 x = Inr y \<Longrightarrow> \<exists>h. hour_field y = Inr h"
  shows "(\<exists>a. hour_field st = Inr a) \<and> (\<exists>b. hour_field en = Inr b)"
proof -
  from assms(1) have "r1 = Inr st \<and> r2 st = Inr en"
    by (auto split: sum.splits)
  with assms(2,3) show ?thesis by blast
qed

lemma bind_triple_hours:
  assumes "case_sum Inl (\<lambda>start. case_sum Inl (\<lambda>start'.
              case_sum Inl (\<lambda>end_time. Inr (start, end_time)) (r3 start')) r2) r1
             = Inr (st, en)"
    and "\<And>x. r1 = Inr x \<Longrightarrow> \<exists>h. hour_field x = Inr h"
    and "\<And>x y. r3 x = Inr y \<Longrightarrow> \<exists>h. hour_field y = Inr h"
  shows "(\<exists>a. hour_field st = Inr a) \<and> (\<exists>b. hour_field en = Inr b)"
proof -
  from assms(1) have "r1 = Inr st \<and> (\<exists>x. r3 x = Inr en)"
    by (auto split: sum.splits)
  with assms(2,3) show ?thesis by blast
qed

lemma parse_time_hours:
  assumes "parse_time v = Inr (st, en)"
  shows "(\<exists>a. hour_field st = Inr a) \<and> (\<exists>b. hour_field en = Inr b)"
proof (cases "truthy v")
  case False
  with assms show ?thesis by (auto simp: parse_time_def default_window_hours)
next
  case True
  show ?thesis
  proof (cases v)
    case (JStr s)
    define time_str where "time_str = sub_separators 0 None (strip (lower s))"
    show ?thesis
    proof (cases "map_of named_times time_str")
      case (Some w)
      with assms True JStr have "map_of named_times time_str = Some (st, en)"
        by (simp add: parse_time_def time_str_def)
      then show ?thesis by (rule named_times_hour)
    next
      case None
      show ?thesis
      proof (cases "sub_in ''from'' time_str \<and> sub_in ''to'' time_str")
        case from_to: True
        with assms True JStr None obtain p0 p1 where
          "case_sum Inl (\<lambda>start. case_sum Inl (\<lambda>end_time. Inr (start, end_time))
              (normalize_time (strip p1))) (normalize_time (strip (replace ''from'' '''' p0)))
           = Inr (st, en)"
          by (auto simp: parse_time_def time_str_def [symmetric] split: list.splits)
        then show ?thesis
          by (rule bind_pair_hours) (auto dest: normalize_time_hour)
      next
        case no_from: False
        show ?thesis
        proof (cases "search_duration 0 time_str")
          case (Some m)
          obtain i num_s unit where m: "m = (i, num_s, unit)" by (cases m)
          from assms True JStr None no_from Some m obtain num where
            "case_sum Inl (\<lambda>start. case_sum Inl (\<lambda>start'.
                case_sum Inl (\<lambda>end_time. Inr (start, end_time))
                  (add_minutes start' (if startswith unit ''h'' then num * 60 else num)))
                (normalize_time (strip (take i time_str))))
              (normalize_time (strip (take i time_str))) = Inr (st, en)"
            by (auto simp: parse_time_def time_str_def [symmetric] Let_def elim!: bind_Inr)
          then show ?thesis
            by (rule bind_triple_hours) (auto dest: normalize_time_hour add_minutes_hour)
        next
          case no_duration: None
          show ?thesis
          proof (cases "sub_in ''-'' time_str")
            case True
            with assms \<open>truthy v\<close> JStr None no_from no_duration have
              "case_sum Inl (\<lambda>start. case_sum Inl (\<lambda>end_time. Inr (start, end_time))
                  (normalize_time (strip (drop 1 (dropWhile (\<lambda>c. c \<noteq> CHR ''-'') time_str)))))
                (normalize_time (strip (takeWhile (\<lambda>c. c \<noteq> CHR ''-'') time_str)))
               = Inr (st, en)"
              by (auto simp add: parse_time_def time_str_def [symmetric])
            then show ?thesis
              by (rule bind_pair_hours) (auto dest: normalize_time_hour)
          next
            case False
            with assms \<open>truthy v\<close> JStr None no_from no_duration have
              "case_sum Inl (\<lambda>normalized. case_sum Inl (\<lambda>end_time. Inr (normalized, end_time))
                  (add_minutes normalized 30)) (normalize_time time_str) = Inr (st, en)"
              by (auto simp add: parse_time_def time_str_def [symmetric])
            then show ?thesis
              by (rule bind_pair_hours) (auto dest: normalize_time_hour add_minutes_hour)
          qed
        qed
      qed
    qed
  qed (use assms True in \<open>simp_all add: parse_time_def\<close>)
qed








subsection \<open>The slot index\<close>

text \<open>
  What each node leaves unchanged, when the check succeeds and when it fails, and the
  invariant of the reachable states. The states the store keeps after a turn are
  reachable when those before it are.
\<close>

lemma simple_extraction_frame:
  assumes "simple_extraction user_input cs = Inr cs'"
  shows "\<exists>d. cs' = cs\<lparr>extracted_details := Some d\<rparr>"
proof -
  from assms obtain date1 where
    "case_sum Inl (\<lambda>time1. case_sum Inl (\<lambda>(time2, duration2).
        Inr (cs\<lparr>extracted_details :=
                Some \<lparr>date = JStr date1, time = JStr time2, duration = duration2,
                      purpose = JStr ''Meeting''\<rparr>\<rparr>))
        (fallback_range (lower user_input) time1)) (fallback_time (lower user_input)) = Inr cs'"
    unfolding simple_extraction_def Let_def by (rule bind_Inr)
  then obtain time1 where
    "case_sum Inl (\<lambda>(time2, duration2).
        Inr (cs\<lparr>extracted_details :=
                Some \<lparr>date = JStr date1, time = JStr time2, duration = duration2,
                      purpose = JStr ''Meeting''\<rparr>\<rparr>))
        (fallback_range (lower user_input) time1) = Inr cs'"
    by (rule bind_Inr)
  then obtain p where
    "(case p of (time2, duration2) \<Rightarrow>
        Inr (cs\<lparr>extracted_details :=
                Some \<lparr>date = JStr date1, time = JStr time2, duration = duration2,
                      purpose = JStr ''Meeting''\<rparr>\<rparr>)) = (Inr cs' :: py_error + conversation_state)"
    by (rule bind_Inr)
  then show ?thesis by (cases p) auto
qed

lemma extract_details_frame:
  assumes "extract_details e user_input cs = Inr cs'"
  shows "\<exists>d. cs' = cs\<lparr>extracted_details := Some d\<rparr>"
  using assms unfolding extract_details_def
  by (auto split: option.splits sum.splits json.splits dest: simple_extraction_frame)

lemma check_availability_cases:
  "(\<exists>text. check_availability e user_id cs = append_message text cs)
   \<or> (\<exists>slots. check_availability e user_id cs
                = cs\<lparr>available_slots := slots, current_slot_index := 0\<rparr>)"
  unfolding check_availability_def
  by (auto split: option.splits sum.splits prod.splits simp: Let_def)

lemma filter_slots_eq:
  assumes "hour_field start_time = Inr a" and "hour_field end_time = Inr b"
  shows "filter_slots slots start_time end_time =
           Inr (filter (\<lambda>s. a \<le> local_hour (slot_start s) \<and> local_hour (slot_start s) < b) slots)"
  by (induction slots) (simp_all add: is_time_in_range_def assms Let_def)

lemma check_availability_success:
  assumes "user_id \<noteq> []" and "extracted_details cs = Some details"
    and "parse_date e (date details) = Inr date_str"
    and "parse_time (time details) = Inr window"
  shows "\<exists>slots. check_availability e user_id cs
                  = cs\<lparr>available_slots := slots, current_slot_index := 0\<rparr>"
proof -
  obtain start_time end_time where w: "window = (start_time, end_time)" by (cases window)
  from parse_time_hours [OF assms(4) [unfolded w]]
  obtain a b where "hour_field start_time = Inr a" "hour_field end_time = Inr b" by blast
  from filter_slots_eq [OF this] assms w show ?thesis
    unfolding check_availability_def by (auto simp: Let_def)
qed

lemma check_availability_failure:
  assumes "user_id = [] \<or> extracted_details cs = None
           \<or> (\<exists>details err. extracted_details cs = Some details
                 \<and> (parse_date e (date details) = Inl err
                      \<or> parse_time (time details) = Inl err))"
  shows "\<exists>text. check_availability e user_id cs = append_message text cs"
  using assms unfolding check_availability_def
  by (auto split: sum.splits)

lemma generate_inquiry_response_frame:
  "current_slot_index (generate_inquiry_response e cs) = current_slot_index cs"
  "available_slots (generate_inquiry_response e cs) = available_slots cs"
  "suggested_slot (generate_inquiry_response e cs) = suggested_slot cs"
  by (simp_all add: generate_inquiry_response_def append_message_def split: sum.splits)

lemma finalize_booking_frame:
  "current_slot_index (finalize_booking e user_id cs) = current_slot_index cs"
  "available_slots (finalize_booking e user_id cs) = available_slots cs"
  "suggested_slot (finalize_booking e user_id cs) = suggested_slot cs"
  by (simp_all add: finalize_booking_def append_message_def book_appointment_def
      split: option.splits sum.splits)

lemma generate_response_frame:
  assumes "generate_response e cs = Inr cs'"
  shows "current_slot_index cs' = current_slot_index cs"
    and "available_slots cs' = available_slots cs"
    and "suggested_slot cs' = suggested_slot cs"
  using assms
  by (auto simp: generate_response_def append_message_def split: sum.splits if_splits)

lemma reachable_slot_pointer:
  "reachable cs \<Longrightarrow> 0 < current_slot_index cs \<Longrightarrow>
     current_slot_index cs \<le> length (available_slots cs)
     \<and> suggested_slot cs = Some (available_slots cs ! (current_slot_index cs - 1))"
proof (induction rule: reachable.induct)
  case created
  then show ?case by (simp add: new_conversation_def)
next
  case (received cs message)
  then show ?case by simp
next
  case (extracted cs e user_input cs')
  from extract_details_frame [OF extracted(2)] extracted(3,4) show ?case by auto
next
  case (decided cs user_input)
  then show ?case by (simp add: decide_after_extraction_def Let_def)
next
  case (inquired cs e)
  then show ?case by (simp add: generate_inquiry_response_frame)
next
  case (checked cs e user_id)
  with check_availability_cases [of e user_id cs] show ?case
    by (auto simp: append_message_def)
next
  case (suggested cs e)
  then show ?case
    by (auto simp: suggest_slots_def append_message_def Let_def split: if_splits)
next
  case (confirmed cs e user_id)
  then show ?case by (simp add: finalize_booking_frame)
next
  case (responded cs e cs')
  then show ?case by (simp add: generate_response_frame)
qed

lemma respond_reachable: "reachable cs \<Longrightarrow> reachable (fst (respond e cs))"
  unfolding respond_def
  by (cases "generate_response e cs") (auto intro: reachable.responded)

lemma check_path_reachable: "reachable cs \<Longrightarrow> reachable (fst (check_path e user_id cs))"
  unfolding check_path_def
  by (intro respond_reachable reachable.confirmed reachable.suggested reachable.checked)

lemma conditional_edges_reachable:
  "reachable (snd r) \<Longrightarrow> reachable (fst (conditional_edges e user_id r))"
proof (cases r)
  case (Pair branch cs)
  assume "reachable (snd r)"
  with Pair show ?thesis
    by (cases branch)
      (auto intro: check_path_reachable respond_reachable reachable.inquired)
qed

lemma workflow_reachable:
  assumes "reachable cs"
  shows "reachable (fst (workflow e user_id user_input cs))"
proof (cases "extract_details e user_input cs")
  case (Inl err)
  with assms show ?thesis by (simp add: workflow_def)
next
  case (Inr cs')
  with assms have "reachable cs'" by (rule reachable.extracted)
  then have "reachable (snd (decide_after_extraction user_input cs'))"
    by (rule reachable.decided)
  then show ?thesis
    by (simp add: workflow_def Inr conditional_edges_reachable)
qed

lemma end_turn_store:
  "snd (end_turn conversations user_id r) = conversations(user_id \<mapsto> fst r)"
  by (cases r; cases "snd r") auto

lemma process_message_reachable:
  assumes "\<And>u s. conversations u = Some s \<Longrightarrow> reachable s"
    and "snd (process_message e conversations message user) u = Some s"
  shows "reachable s"
proof (cases user)
  case None
  with assms show ?thesis by simp
next
  case (Some user_id)
  show ?thesis
  proof (cases "user_id = []")
    case True
    with assms Some show ?thesis by simp
  next
    case False
    have "reachable (session_of (conversations user_id))"
      using assms(1) by (cases "conversations user_id") (auto intro: reachable.created)
    then have "reachable (session_of (conversations user_id)
                 \<lparr>messages := messages (session_of (conversations user_id))
                                @ [HumanMessage message]\<rparr>)"
      by (rule reachable.received)
    then have "reachable (fst (workflow e user_id message
                 (session_of (conversations user_id)
                    \<lparr>messages := messages (session_of (conversations user_id))
                                   @ [HumanMessage message]\<rparr>)))"
      by (rule workflow_reachable)
    with assms Some False show ?thesis
      by (auto simp: end_turn_store split: if_splits)
  qed
qed

text \<open>
  C4 as stated fails: a successful check resets the slot index to 0. In the example
  session the index is 1 after the first turn and 0 after the second, where the slot
  suggested in the first turn is still present although no slot is available.
\<close>

theorem slot_index_reset_counterexample:
  "map_option current_slot_index (snd long_turn1 ''alice'') = Some 1
   \<and> map_option current_slot_index (snd long_turn2 ''alice'') = Some 0
   \<and> map_option suggested_slot (snd long_turn2 ''alice'') = Some (Some slot_0900)
   \<and> map_option available_slots (snd long_turn2 ''alice'') = Some []"
  by code_simp

text \<open>
  C4, amended. No operation of a turn but a successful check decreases the slot index.
  The extraction, the branch decision, the inquiry, the confirmation and the response
  leave the index as it is; the suggestion increases it by one when it offers a slot
  (the slot list is not empty and the index is inside it) and leaves it otherwise. A
  check that resolves the date and the time window (a user id is there, details were
  extracted, both normalisers return) resets the index to 0; a check that does not (no
  user id, no details, or a normaliser raises) leaves the index, the slot list and the
  suggested slot as they are. In every reachable state with a slot index above 0, the
  index is at most the length of the slot list and the suggested slot is present and is
  the slot at the index minus one. The states the store keeps after a turn are
  reachable when those it kept before are.
\<close>

theorem slot_index_steps:
  "(extract_details e user_input cs = Inr cs' \<longrightarrow>
      current_slot_index cs' = current_slot_index cs)
   \<and> current_slot_index (snd (decide_after_extraction user_input cs)) = current_slot_index cs
   \<and> current_slot_index (generate_inquiry_response e cs) = current_slot_index cs
   \<and> current_slot_index (finalize_booking e user_id cs) = current_slot_index cs
   \<and> (generate_response e cs = Inr cs'' \<longrightarrow> current_slot_index cs'' = current_slot_index cs)
   \<and> current_slot_index (suggest_slots e cs)
       = (if available_slots cs \<noteq> [] \<and> current_slot_index cs < length (available_slots cs)
          then current_slot_index cs + 1 else current_slot_index cs)
   \<and> (user_id \<noteq> [] \<and> extracted_details cs = Some details
        \<and> parse_date e (date details) = Inr date_str
        \<and> parse_time (time details) = Inr window \<longrightarrow>
        current_slot_index (check_availability e user_id cs) = 0)
   \<and> (user_id = [] \<or> extracted_details cs = None
        \<or> (\<exists>details err. extracted_details cs = Some details
              \<and> (parse_date e (date details) = Inl err
                   \<or> parse_time (time details) = Inl err)) \<longrightarrow>
        current_slot_index (check_availability e user_id cs) = current_slot_index cs
        \<and> available_slots (check_availability e user_id cs) = available_slots cs
        \<and> suggested_slot (check_availability e user_id cs) = suggested_slot cs)
   \<and> (reachable cs \<and> 0 < current_slot_index cs \<longrightarrow>
        current_slot_index cs \<le> length (available_slots cs)
        \<and> suggested_slot cs = Some (available_slots cs ! (current_slot_index cs - 1)))
   \<and> ((\<forall>u s. conversations u = Some s \<longrightarrow> reachable s) \<longrightarrow>
        (\<forall>u s. snd (process_message e conversations message user) u = Some s \<longrightarrow>
               reachable s))"
proof -
  have at_extract: "current_slot_index cs' = current_slot_index cs"
    if "extract_details e user_input cs = Inr cs'"
    using extract_details_frame [OF that] by auto
  have at_decide: "current_slot_index (snd (decide_after_extraction user_input cs))
                  = current_slot_index cs"
    by (simp add: decide_after_extraction_def Let_def)
  note at_inquire = generate_inquiry_response_frame(1) [of e cs]
  note at_confirm = finalize_booking_frame(1) [of e user_id cs]
  have at_respond: "current_slot_index cs'' = current_slot_index cs"
    if "generate_response e cs = Inr cs''"
    using that by (rule generate_response_frame)
  have at_suggest: "current_slot_index (suggest_slots e cs)
       = (if available_slots cs \<noteq> [] \<and> current_slot_index cs < length (available_slots cs)
          then current_slot_index cs + 1 else current_slot_index cs)"
    by (simp add: suggest_slots_def append_message_def Let_def)
  have at_check: "current_slot_index (check_availability e user_id cs) = 0"
    if "user_id \<noteq> [] \<and> extracted_details cs = Some details
        \<and> parse_date e (date details) = Inr date_str
        \<and> parse_time (time details) = Inr window"
    using check_availability_success [of user_id cs details e date_str window] that by auto
  have at_failure: "current_slot_index (check_availability e user_id cs) = current_slot_index cs
        \<and> available_slots (check_availability e user_id cs) = available_slots cs
        \<and> suggested_slot (check_availability e user_id cs) = suggested_slot cs"
    if "user_id = [] \<or> extracted_details cs = None
        \<or> (\<exists>details err. extracted_details cs = Some details
              \<and> (parse_date e (date details) = Inl err
                   \<or> parse_time (time details) = Inl err))"
    using check_availability_failure [OF that] by (auto simp: append_message_def)
  have pointer: "current_slot_index cs \<le> length (available_slots cs)
        \<and> suggested_slot cs = Some (available_slots cs ! (current_slot_index cs - 1))"
    if "reachable cs \<and> 0 < current_slot_index cs"
    using that reachable_slot_pointer by blast
  have store: "\<forall>u s. snd (process_message e conversations message user) u = Some s \<longrightarrow>
               reachable s"
    if "\<forall>u s. conversations u = Some s \<longrightarrow> reachable s"
    using that process_message_reachable [of conversations e message user] by blast
  show ?thesis
    apply (intro conjI impI)
    subgoal by (rule at_extract)
    subgoal by (rule at_decide)
    subgoal by (rule at_inquire)
    subgoal by (rule at_confirm)
    subgoal by (rule at_respond)
    subgoal by (rule at_suggest)
    subgoal using at_check by blast
    subgoal using at_failure by blast
    subgoal using at_failure by blast
    subgoal using at_failure by blast
    subgoal using pointer by blast
    subgoal using pointer by blast
    subgoal using store by blast
    done
qed

theorem slot_index_steps_witness:
  "extract_details free_env ''book between 9am and 4:50pm'' new_conversation = Inr extracted_state
   \<and> current_slot_index extracted_state = 0
   \<and> generate_response free_env extracted_state
       = Inr (extracted_state\<lparr>messages :=
                [AIMessage ''No available slots found for your requested time.'']\<rparr>)
   \<and> current_slot_index (suggest_slots free_env (extracted_state\<lparr>available_slots := [slot_0900]\<rparr>))
       = 1
   \<and> snd long_turn1 ''alice'' = Some turn1_state
   \<and> reachable turn1_state
   \<and> current_slot_index turn1_state = 1
   \<and> available_slots turn1_state = [slot_0900]
   \<and> suggested_slot turn1_state = Some slot_0900
   \<and> extracted_details turn1_state
       = Some \<lparr>date = JStr ''today'', time = JStr ''09:00-16:50'', duration = 470,
               purpose = JStr ''Meeting''\<rparr>
   \<and> parse_date free_env (JStr ''today'') = Inr ''2024-01-01''
   \<and> parse_time (JStr ''09:00-16:50'') = Inr (''09:00'', ''16:50'')
   \<and> current_slot_index (check_availability free_env ''alice'' turn1_state) = 0
   \<and> parse_time (JStr ''soon'') = Inl ValueError
   \<and> current_slot_index (check_availability free_env ''alice'' unreadable_state) = 1
   \<and> available_slots (check_availability free_env ''alice'' unreadable_state) = [slot_0900]
   \<and> suggested_slot (check_availability free_env ''alice'' unreadable_state) = Some slot_0900"
proof -
  let ?details = "\<lparr>date = JStr ''today'', time = JStr ''09:00-16:50'', duration = 470,
                   purpose = JStr ''Meeting''\<rparr>"
  let ?unreadable = "\<lparr>date = JStr ''today'', time = JStr ''soon'', duration = 30,
                      purpose = JStr ''Meeting''\<rparr>"
  let ?found = "extracted_state\<lparr>available_slots := [slot_0900]\<rparr>"
  have e1: "extract_details free_env ''book between 9am and 4:50pm'' new_conversation
              = Inr extracted_state"
    by code_simp
  have e2: "generate_response free_env extracted_state
       = Inr (extracted_state\<lparr>messages :=
                [AIMessage ''No available slots found for your requested time.'']\<rparr>)"
    by code_simp
  have e3: "current_slot_index extracted_state = 0" "current_slot_index ?found = 0"
    "available_slots ?found \<noteq> [] \<and> current_slot_index ?found < length (available_slots ?found)"
    by (simp_all add: extracted_state_def new_conversation_def)
  have turn: "snd long_turn1 ''alice'' = Some turn1_state"
    by (simp add: turn1_state_def long_turn1_def end_turn_store)
  have idx: "current_slot_index turn1_state = 1"
    and slots: "available_slots turn1_state = [slot_0900]"
    and slot: "suggested_slot turn1_state = Some slot_0900"
    and details: "extracted_details turn1_state = Some ?details"
    by code_simp+
  have d: "parse_date free_env (date ?details) = Inr ''2024-01-01''"
    and t: "parse_time (time ?details) = Inr (''09:00'', ''16:50'')"
    and u: "parse_time (time ?unreadable) = Inl ValueError"
    by code_simp+
  have unreadable: "extracted_details unreadable_state = Some ?unreadable"
    "current_slot_index unreadable_state = 1" "available_slots unreadable_state = [slot_0900]"
    "suggested_slot unreadable_state = Some slot_0900"
    by (simp_all add: unreadable_state_def idx slots slot)
  have name: "''alice'' \<noteq> ''''" by simp
  have empty: "\<forall>u s. (Map.empty :: string \<rightharpoonup> conversation_state) u = Some s \<longrightarrow> reachable s"
    by simp
  from slot_index_steps [where e = free_env and user_input = "''book between 9am and 4:50pm''"
      and cs = new_conversation and cs' = extracted_state] e1
  have w1: "current_slot_index extracted_state = current_slot_index new_conversation"
    by blast
  from slot_index_steps [where e = free_env and cs = extracted_state] e2
  have w2: "current_slot_index (extracted_state\<lparr>messages :=
                [AIMessage ''No available slots found for your requested time.'']\<rparr>)
            = current_slot_index extracted_state"
    by blast
  from slot_index_steps [where e = free_env and cs = ?found] e3
  have w3: "current_slot_index (suggest_slots free_env ?found) = 1"
    by simp
  from slot_index_steps [where e = free_env and conversations = Map.empty
      and message = "''book between 9am and 4:50pm''" and user = "Some ''alice''"] empty turn
  have w4: "reachable turn1_state"
    unfolding long_turn1_def by blast
  from slot_index_steps [where e = free_env and cs = turn1_state and user_id = "''alice''"
      and details = ?details and date_str = "''2024-01-01''"
      and window = "(''09:00'', ''16:50'')"] name details d t
  have w5: "current_slot_index (check_availability free_env ''alice'' turn1_state) = 0"
    by blast
  from slot_index_steps [where e = free_env and cs = unreadable_state and user_id = "''alice''"]
      unreadable(1) u
  have w6: "current_slot_index (check_availability free_env ''alice'' unreadable_state)
              = current_slot_index unreadable_state
            \<and> available_slots (check_availability free_env ''alice'' unreadable_state)
              = available_slots unreadable_state
            \<and> suggested_slot (check_availability free_env ''alice'' unreadable_state)
              = suggested_slot unreadable_state"
    by blast
  from slot_index_steps [where cs = turn1_state] w4 idx
  have w7: "suggested_slot turn1_state
              = Some (available_slots turn1_state ! (current_slot_index turn1_state - 1))"
    by simp
  from e1 e2 e3 w3 turn w4 idx slots slot details d t w5 u w6 unreadable show ?thesis
    by simp
qed



subsection \<open>The fallback extraction\<close>

























end
